theory Spec2Isabelle
  imports Complex_Main
begin

section \<open>Data model of the OBE portal\<close>

text \<open>
  The client keeps one snapshot \<open>data\<close> of the server's collections and computes every
  attainment report from it. Ids are JavaScript strings; the falsy id is the empty string.
  JavaScript numbers are modelled as exact reals (rounding of IEEE doubles is outside the
  model). A mapping's \<open>weight\<close> property is the one numeric field the code tests for
  truthiness, so it keeps the values that are falsy in JavaScript without being the
  number zero: \<open>NaN\<close>, and a missing property (\<open>None\<close>).
\<close>

datatype jsnum = NaN | Num real

record enrolment =
  en_id :: string
  en_studentId :: string
  en_courseId :: string
  en_semesterId :: string
  en_year :: string

record assessment =
  as_id :: string
  as_courseId :: string
  as_name :: string
  as_maxMarks :: real
  as_semesterId :: string

record mark =
  mk_id :: string
  mk_enrolmentId :: string
  mk_assessmentId :: string
  mk_marks :: real

record student =
  st_id :: string
  st_studentId :: string
  st_name :: string
  st_programId :: string

record courseOutcome =
  co_id :: string
  co_courseId :: string
  co_code :: string
  co_description :: string

record programOutcome =
  po_id :: string
  po_programId :: string
  po_code :: string
  po_description :: string

record assessmentCoMapping =
  acm_id :: string
  acm_assessmentId :: string
  acm_courseOutcomeId :: string
  acm_weight :: "jsnum option"

record coPoMapping =
  cpm_id :: string
  cpm_courseOutcomeId :: string
  cpm_programOutcomeId :: string
  cpm_weight :: "jsnum option"

record data =
  students :: "student list"
  enrolments :: "enrolment list"
  programOutcomes :: "programOutcome list"
  courseOutcomes :: "courseOutcome list"
  coPoMappings :: "coPoMapping list"
  assessments :: "assessment list"
  assessmentCoMappings :: "assessmentCoMapping list"
  marks :: "mark list"

section \<open>Lookups\<close>

text \<open>\<open>data.xs.find(x => x.id === id) || null\<close>: the first element with the id, or none.\<close>

definition getStudent :: "data \<Rightarrow> string \<Rightarrow> student option" where
  "getStudent d i = find (\<lambda>s. st_id s = i) (students d)"

definition getProgramOutcome :: "data \<Rightarrow> string \<Rightarrow> programOutcome option" where
  "getProgramOutcome d i = find (\<lambda>outcome. po_id outcome = i) (programOutcomes d)"

definition getCourseOutcome :: "data \<Rightarrow> string \<Rightarrow> courseOutcome option" where
  "getCourseOutcome d i = find (\<lambda>outcome. co_id outcome = i) (courseOutcomes d)"

definition getAssessment :: "data \<Rightarrow> string \<Rightarrow> assessment option" where
  "getAssessment d i = find (\<lambda>a. as_id a = i) (assessments d)"

section \<open>Course-outcome attainment\<close>

text \<open>
  \<open>mapping.weight && mapping.weight > 0 ? mapping.weight / 100 : 1\<close>.
  A missing weight, \<open>NaN\<close> and the number 0 are falsy; a negative number fails the
  comparison. \<open>num_of\<close> reads the number of a weight that passed both tests.
\<close>

fun truthy :: "jsnum option \<Rightarrow> bool" where
  "truthy None = False"
| "truthy (Some NaN) = False"
| "truthy (Some (Num r)) = (r \<noteq> 0)"

fun gt_zero :: "jsnum option \<Rightarrow> bool" where
  "gt_zero (Some (Num r)) = (r > 0)"
| "gt_zero _ = False"

fun num_of :: "jsnum option \<Rightarrow> real" where
  "num_of (Some (Num r)) = r"
| "num_of _ = 0"

definition coWeight :: "jsnum option \<Rightarrow> real" where
  "coWeight w = (if truthy w \<and> gt_zero w then num_of w / 100 else 1)"

text \<open>
  \<open>data.marks.find(entry => entry.enrolmentId === enrolment.id &&
  entry.assessmentId === assessment.id)\<close>
\<close>

definition findMark :: "data \<Rightarrow> enrolment \<Rightarrow> assessment \<Rightarrow> mark option" where
  "findMark d e a =
     find (\<lambda>entry. mk_enrolmentId entry = en_id e \<and> mk_assessmentId entry = as_id a) (marks d)"

text \<open>
  The body of the \<open>forEach\<close> over the relevant mappings; the two accumulators
  \<open>totalWeightedMax\<close> and \<open>totalWeightedScore\<close> are the state of the loop.
\<close>

definition coStep :: "data \<Rightarrow> enrolment \<Rightarrow> real \<times> real \<Rightarrow> assessmentCoMapping \<Rightarrow> real \<times> real" where
  "coStep d e acc mapping =
     (case getAssessment d (acm_assessmentId mapping) of
        None \<Rightarrow> acc
      | Some a \<Rightarrow>
          if as_courseId a \<noteq> en_courseId e then acc
          else
            (let weight = coWeight (acm_weight mapping);
                 markEntry = findMark d e a
             in (fst acc + as_maxMarks a * weight,
                 snd acc + (case markEntry of Some entry \<Rightarrow> mk_marks entry | None \<Rightarrow> 0) * weight)))"

definition calculateCourseOutcomeAchievement :: "data \<Rightarrow> enrolment \<Rightarrow> string \<Rightarrow> real option" where
  "calculateCourseOutcomeAchievement d e courseOutcomeId =
     (let relevantMappings =
            filter (\<lambda>mapping. acm_courseOutcomeId mapping = courseOutcomeId) (assessmentCoMappings d)
      in if length relevantMappings = 0 then None
         else
           (let totals = foldl (coStep d e) (0, 0) relevantMappings;
                totalWeightedMax = fst totals;
                totalWeightedScore = snd totals
            in if totalWeightedMax = 0 then None
               else Some ((totalWeightedScore / totalWeightedMax) * 100)))"

section \<open>Program-outcome attainment\<close>

text \<open>\<open>.filter(value => value !== null)\<close> on a list of attainments.\<close>

fun dropNull :: "'a option list \<Rightarrow> 'a list" where
  "dropNull [] = []"
| "dropNull (None # vs) = dropNull vs"
| "dropNull (Some v # vs) = v # dropNull vs"

text \<open>\<open>attainments.reduce((sum, value) => sum + value, 0) / attainments.length\<close>\<close>

definition average :: "real list \<Rightarrow> real" where
  "average attainments = foldl (\<lambda>sum value. sum + value) 0 attainments / real (length attainments)"

text \<open>\<open>mapping.weight && mapping.weight > 0 ? mapping.weight : 100\<close>\<close>

definition poWeight :: "jsnum option \<Rightarrow> real" where
  "poWeight w = (if truthy w \<and> gt_zero w then num_of w else 100)"

text \<open>
  The optional \<open>semesterId\<close> defaults to \<open>null\<close> (\<open>None\<close>);
  \<open>!semesterId\<close> also holds for the empty string.
\<close>

definition noSemester :: "string option \<Rightarrow> bool" where
  "noSemester semesterId = (case semesterId of None \<Rightarrow> True | Some s \<Rightarrow> s = [])"

definition studentEnrolments :: "data \<Rightarrow> string \<Rightarrow> string option \<Rightarrow> enrolment list" where
  "studentEnrolments d studentId semesterId =
     filter (\<lambda>e. en_studentId e = studentId \<and>
                  (noSemester semesterId \<or> Some (en_semesterId e) = semesterId))
       (enrolments d)"

text \<open>
  The body of the \<open>forEach\<close> over the CO-to-PO mappings of the outcome, on the
  accumulators \<open>totalWeight\<close> and \<open>weightedSum\<close>.
\<close>

definition poStep :: "data \<Rightarrow> enrolment list \<Rightarrow> real \<times> real \<Rightarrow> coPoMapping \<Rightarrow> real \<times> real" where
  "poStep d ens acc mapping =
     (case getCourseOutcome d (cpm_courseOutcomeId mapping) of
        None \<Rightarrow> acc
      | Some courseOutcome \<Rightarrow>
          (let enrolmentsForCourse = filter (\<lambda>e. en_courseId e = co_courseId courseOutcome) ens
           in if length enrolmentsForCourse = 0 then acc
              else
                (let attainments =
                       dropNull (map (\<lambda>e. calculateCourseOutcomeAchievement d e (co_id courseOutcome))
                                   enrolmentsForCourse)
                 in if length attainments = 0 then acc
                    else
                      (let avg = average attainments;
                           weight = poWeight (cpm_weight mapping)
                       in (fst acc + weight, snd acc + avg * weight)))))"

definition calculateProgramOutcomeAchievementForStudent ::
  "data \<Rightarrow> string \<Rightarrow> string \<Rightarrow> string option \<Rightarrow> real option" where
  "calculateProgramOutcomeAchievementForStudent d studentId programOutcomeId semesterId =
     (case getProgramOutcome d programOutcomeId of
        None \<Rightarrow> None
      | Some programOutcome \<Rightarrow>
          (let ens = studentEnrolments d studentId semesterId
           in if length ens = 0 then None
              else
                (let relevantMappings =
                       filter (\<lambda>mapping. cpm_programOutcomeId mapping = programOutcomeId) (coPoMappings d)
                 in if length relevantMappings = 0 then None
                    else
                      (let totals = foldl (poStep d ens) (0, 0) relevantMappings;
                           totalWeight = fst totals;
                           weightedSum = snd totals
                       in if totalWeight = 0 then None
                          else Some (weightedSum / totalWeight)))))"

section \<open>Report views\<close>

text \<open>
  A render function writes either a one-line message or a table into its container. The
  model returns what is written: the message, or the rows of the table, each with the
  outcome's code and description, the attainment (\<open>None\<close> where the cell shows a dash)
  and the text of the status cell. Formatting of the number (\<open>toFixed(2)\<close>) is left
  out, and the container element of the page is taken to exist.
\<close>

record row =
  row_code :: string
  row_description :: string
  row_value :: "real option"
  row_status :: string

datatype report = EmptyState string | Table "row list"

definition findLatestEnrolment :: "data \<Rightarrow> string \<Rightarrow> string \<Rightarrow> enrolment option" where
  "findLatestEnrolment d studentId courseId =
     (let ens = filter (\<lambda>e. en_studentId e = studentId \<and> en_courseId e = courseId) (enrolments d)
      in if length ens = 0 then None else Some (ens ! (length ens - 1)))"

definition coStudentRow :: "data \<Rightarrow> enrolment \<Rightarrow> courseOutcome \<Rightarrow> row" where
  "coStudentRow d e outcome =
     (case calculateCourseOutcomeAchievement d e (co_id outcome) of
        None \<Rightarrow>
          \<lparr>row_code = co_code outcome, row_description = co_description outcome,
           row_value = None, row_status = ''No assessment mapping''\<rparr>
      | Some attainment \<Rightarrow>
          \<lparr>row_code = co_code outcome, row_description = co_description outcome,
           row_value = Some attainment,
           row_status = (if attainment \<ge> 60 then ''Achieved'' else ''Needs Attention'')\<rparr>)"

definition renderCoAchievementForStudent :: "data \<Rightarrow> string \<Rightarrow> string \<Rightarrow> report" where
  "renderCoAchievementForStudent d studentId courseId =
     (if studentId = [] \<or> courseId = [] then
        EmptyState ''Select a student and course to view attainment.''
      else
        (case findLatestEnrolment d studentId courseId of
           None \<Rightarrow> EmptyState ''No enrolment found for the selected student and course.''
         | Some e \<Rightarrow>
             (let outcomes = filter (\<lambda>outcome. co_courseId outcome = courseId) (courseOutcomes d)
              in if length outcomes = 0 then
                   EmptyState ''No course outcomes configured for the selected course.''
                 else Table (map (coStudentRow d e) outcomes))))"

definition coSemesterRow :: "data \<Rightarrow> enrolment list \<Rightarrow> courseOutcome \<Rightarrow> row" where
  "coSemesterRow d ens outcome =
     (let attainments =
            dropNull (map (\<lambda>e. calculateCourseOutcomeAchievement d e (co_id outcome)) ens)
      in if length attainments = 0 then
           \<lparr>row_code = co_code outcome, row_description = co_description outcome,
            row_value = None, row_status = ''No marks uploaded''\<rparr>
         else
           (let avg = average attainments
            in \<lparr>row_code = co_code outcome, row_description = co_description outcome,
                row_value = Some avg,
                row_status = (if avg \<ge> 60 then ''Achieved'' else ''Needs Attention'')\<rparr>))"

definition renderCoAchievementForSemester :: "data \<Rightarrow> string \<Rightarrow> string \<Rightarrow> report" where
  "renderCoAchievementForSemester d courseId semesterId =
     (if courseId = [] \<or> semesterId = [] then
        EmptyState ''Select a course and semester to view attainment.''
      else
        (let ens = filter (\<lambda>e. en_courseId e = courseId \<and> en_semesterId e = semesterId) (enrolments d)
         in if length ens = 0 then
              EmptyState ''No enrolments found for the selected course and semester.''
            else
              (let outcomes = filter (\<lambda>outcome. co_courseId outcome = courseId) (courseOutcomes d)
               in if length outcomes = 0 then
                    EmptyState ''No course outcomes configured for the selected course.''
                  else Table (map (coSemesterRow d ens) outcomes))))"

definition poStudentRow :: "data \<Rightarrow> string \<Rightarrow> programOutcome \<Rightarrow> row" where
  "poStudentRow d studentId outcome =
     (case calculateProgramOutcomeAchievementForStudent d studentId (po_id outcome) None of
        None \<Rightarrow>
          \<lparr>row_code = po_code outcome, row_description = po_description outcome,
           row_value = None, row_status = ''No contributing CO attainment''\<rparr>
      | Some attainment \<Rightarrow>
          \<lparr>row_code = po_code outcome, row_description = po_description outcome,
           row_value = Some attainment,
           row_status = (if attainment \<ge> 60 then ''Achieved'' else ''Needs Attention'')\<rparr>)"

definition renderPoAchievementForStudent :: "data \<Rightarrow> string \<Rightarrow> report" where
  "renderPoAchievementForStudent d studentId =
     (if studentId = [] then EmptyState ''Select a student to generate the report.''
      else
        (case getStudent d studentId of
           None \<Rightarrow> EmptyState ''Student not found.''
         | Some student \<Rightarrow>
             (let outcomes =
                    filter (\<lambda>outcome. po_programId outcome = st_programId student) (programOutcomes d)
              in if length outcomes = 0 then
                   EmptyState ''No program outcomes configured for the student's program.''
                 else Table (map (poStudentRow d studentId) outcomes))))"

definition poSemesterRow :: "data \<Rightarrow> student list \<Rightarrow> string \<Rightarrow> programOutcome \<Rightarrow> row" where
  "poSemesterRow d studs semesterId outcome =
     (let attainments =
            dropNull (map (\<lambda>student.
                calculateProgramOutcomeAchievementForStudent d (st_id student) (po_id outcome)
                  (Some semesterId)) studs)
      in if length attainments = 0 then
           \<lparr>row_code = po_code outcome, row_description = po_description outcome,
            row_value = None, row_status = ''No contributing data''\<rparr>
         else
           (let avg = average attainments
            in \<lparr>row_code = po_code outcome, row_description = po_description outcome,
                row_value = Some avg,
                row_status = (if avg \<ge> 60 then ''Achieved'' else ''Needs Attention'')\<rparr>))"

definition renderPoAchievementForSemester :: "data \<Rightarrow> string \<Rightarrow> string \<Rightarrow> report" where
  "renderPoAchievementForSemester d programId semesterId =
     (if programId = [] \<or> semesterId = [] then
        EmptyState ''Select a program and semester to generate the report.''
      else
        (let outcomes = filter (\<lambda>outcome. po_programId outcome = programId) (programOutcomes d)
         in if length outcomes = 0 then
              EmptyState ''No program outcomes configured for the selected program.''
            else
              (let studs = filter (\<lambda>student. st_programId student = programId) (students d)
               in Table (map (poSemesterRow d studs semesterId) outcomes))))"

section \<open>The server's store: upsert of a mark\<close>

text \<open>
  The server keeps the same collections in \<open>this.data\<close>. A request body is parsed JSON:
  a property of the payload is missing, \<open>null\<close>, a boolean, a number, a string, or an
  array or object (\<open>JObject\<close>).
\<close>

datatype json_val = JUndefined | JNull | JBool bool | JNumber real | JString string | JObject

text \<open>\<open>!v\<close> is false exactly for the truthy values.\<close>

fun js_truthy :: "json_val \<Rightarrow> bool" where
  "js_truthy JUndefined = False"
| "js_truthy JNull = False"
| "js_truthy (JBool b) = b"
| "js_truthy (JNumber r) = (r \<noteq> 0)"
| "js_truthy (JString s) = (s \<noteq> [])"
| "js_truthy JObject = True"

text \<open>\<open>item.id === id\<close> for a stored string id: only the same string is strictly equal.\<close>

definition strictEq :: "string \<Rightarrow> json_val \<Rightarrow> bool" where
  "strictEq s v = (v = JString s)"

text \<open>The string that a payload value holds, read only after a lookup by it succeeded.\<close>

fun str_of :: "json_val \<Rightarrow> string" where
  "str_of (JString s) = s"
| "str_of _ = []"

text \<open>
  The payload of \<open>upsertMark\<close>. \<open>p_marks\<close> is the result of the builtin
  \<open>Number(payload.marks)\<close>, which is a number or \<open>NaN\<close>.
\<close>

record markPayload =
  p_enrolmentId :: json_val
  p_assessmentId :: json_val
  p_marks :: jsnum

datatype error = ValidationError string nat | SaveFailed | TypeError

text \<open>\<open>this.data[collection].find((item) => item.id === id)\<close>\<close>

definition findEnrolmentById :: "data \<Rightarrow> json_val \<Rightarrow> enrolment option" where
  "findEnrolmentById st i = find (\<lambda>item. strictEq (en_id item) i) (enrolments st)"

definition findAssessmentById :: "data \<Rightarrow> json_val \<Rightarrow> assessment option" where
  "findAssessmentById st i = find (\<lambda>item. strictEq (as_id item) i) (assessments st)"

text \<open>
  \<open>entry.marks = marks\<close> writes through the reference that \<open>find\<close> returned: the
  first element that satisfies the predicate is replaced, the array keeps its length.
\<close>

fun updateFirst :: "('a \<Rightarrow> bool) \<Rightarrow> ('a \<Rightarrow> 'a) \<Rightarrow> 'a list \<Rightarrow> 'a list" where
  "updateFirst P f [] = []"
| "updateFirst P f (x # xs) = (if P x then f x # xs else x # updateFirst P f xs)"

text \<open>
  \<open>upsertMark\<close> on the store state. The fresh id of \<open>generateId()\<close> and the outcome
  of \<open>save()\<close> (writing the file can fail) are inputs. The store is changed before the
  save, so a failed save leaves the change in memory. The result is the new state and
  either the error thrown or \<open>{ entry, created }\<close>.
\<close>

definition upsertMark ::
  "string \<Rightarrow> bool \<Rightarrow> data \<Rightarrow> markPayload \<Rightarrow> data \<times> (error + mark \<times> bool)" where
  "upsertMark newId saved st payload =
     (let enrolmentId = p_enrolmentId payload;
          assessmentId = p_assessmentId payload;
          marksN = p_marks payload
      in if \<not> js_truthy enrolmentId \<or> \<not> js_truthy assessmentId \<or> marksN = NaN then
           (st, Inl (ValidationError ''Enrolment, assessment and marks are required.'' 400))
         else if findEnrolmentById st enrolmentId = None then
           (st, Inl (ValidationError ''Referenced enrolment does not exist.'' 400))
         else if findAssessmentById st assessmentId = None then
           (st, Inl (ValidationError ''Referenced assessment does not exist.'' 400))
         else
           (let v = (case marksN of Num r \<Rightarrow> r | NaN \<Rightarrow> 0);
                same = (\<lambda>mark. strictEq (mk_enrolmentId mark) enrolmentId \<and>
                               strictEq (mk_assessmentId mark) assessmentId)
            in case find same (marks st) of
                 Some found \<Rightarrow>
                   (let entry = found\<lparr>mk_marks := v\<rparr>;
                        st' = st\<lparr>marks := updateFirst same (\<lambda>m. m\<lparr>mk_marks := v\<rparr>) (marks st)\<rparr>
                    in (st', if saved then Inr (entry, False) else Inl SaveFailed))
               | None \<Rightarrow>
                   (let entry = \<lparr>mk_id = newId, mk_enrolmentId = str_of enrolmentId,
                                 mk_assessmentId = str_of assessmentId, mk_marks = v\<rparr>;
                        st' = st\<lparr>marks := marks st @ [entry]\<rparr>
                    in (st', if saved then Inr (entry, True) else Inl SaveFailed))))"

text \<open>The seed of the store: every collection empty.\<close>

definition initialData :: data where
  "initialData =
     \<lparr>students = [], enrolments = [], programOutcomes = [], courseOutcomes = [],
      coPoMappings = [], assessments = [], assessmentCoMappings = [], marks = []\<rparr>"

section \<open>The server's store: copies handed out\<close>

text \<open>
  \<open>getAll\<close> and \<open>list\<close> return \<open>clone\<close> of stored data, and the question is
  what the returned objects share with the stored ones. Objects therefore live in a heap:
  a list of arrays and plain objects, an object's address being its position, so that a
  new object is appended. A value is a primitive that JSON represents exactly, or a
  reference.
\<close>

datatype val = VNull | VBool bool | VNum real | VStr string | VRef nat

datatype obj = Arr "val list" | Obj "(string \<times> val) list"

type_synonym heap = "obj list"

datatype json_tree =
  TNull | TBool bool | TNum real | TStr string
  | TArr "json_tree list" | TObj "(string \<times> json_tree) list"

text \<open>
  \<open>JSON.stringify\<close>, up to the text of the result: the tree of the value. The builtin
  keeps the stack of the objects it is inside of and throws a \<open>TypeError\<close> on meeting
  one of them again (a cyclic structure); that is the result \<open>None\<close>.
\<close>

function stringify :: "heap \<Rightarrow> nat list \<Rightarrow> val \<Rightarrow> json_tree option"
  and stringifyList :: "heap \<Rightarrow> nat list \<Rightarrow> val list \<Rightarrow> json_tree list option"
  and stringifyFields :: "heap \<Rightarrow> nat list \<Rightarrow> (string \<times> val) list \<Rightarrow> (string \<times> json_tree) list option"
where
  "stringify h stack VNull = Some TNull"
| "stringify h stack (VBool b) = Some (TBool b)"
| "stringify h stack (VNum r) = Some (TNum r)"
| "stringify h stack (VStr s) = Some (TStr s)"
| "stringify h stack (VRef a) =
     (if a \<in> set stack \<or> length h \<le> a then None
      else
        (case h ! a of
           Arr vs \<Rightarrow> map_option TArr (stringifyList h (a # stack) vs)
         | Obj fs \<Rightarrow> map_option TObj (stringifyFields h (a # stack) fs)))"
| "stringifyList h stack [] = Some []"
| "stringifyList h stack (v # vs) =
     (case stringify h stack v of
        None \<Rightarrow> None
      | Some t \<Rightarrow> map_option (\<lambda>ts. t # ts) (stringifyList h stack vs))"
| "stringifyFields h stack [] = Some []"
| "stringifyFields h stack (f # fs) =
     (case stringify h stack (snd f) of
        None \<Rightarrow> None
      | Some t \<Rightarrow> map_option (\<lambda>ts. (fst f, t) # ts) (stringifyFields h stack fs))"
  by pat_completeness auto

text \<open>
  \<open>JSON.parse\<close> of the text of a tree: every array and object of the tree becomes a new
  object of the heap.
\<close>

fun parse :: "json_tree \<Rightarrow> heap \<Rightarrow> val \<times> heap"
  and parseList :: "json_tree list \<Rightarrow> heap \<Rightarrow> val list \<times> heap"
  and parseFields :: "(string \<times> json_tree) list \<Rightarrow> heap \<Rightarrow> (string \<times> val) list \<times> heap"
where
  "parse TNull h = (VNull, h)"
| "parse (TBool b) h = (VBool b, h)"
| "parse (TNum r) h = (VNum r, h)"
| "parse (TStr s) h = (VStr s, h)"
| "parse (TArr ts) h = (case parseList ts h of (vs, h') \<Rightarrow> (VRef (length h'), h' @ [Arr vs]))"
| "parse (TObj fs) h = (case parseFields fs h of (vs, h') \<Rightarrow> (VRef (length h'), h' @ [Obj vs]))"
| "parseList [] h = ([], h)"
| "parseList (t # ts) h =
     (case parse t h of (v, h1) \<Rightarrow> (case parseList ts h1 of (vs, h2) \<Rightarrow> (v # vs, h2)))"
| "parseFields [] h = ([], h)"
| "parseFields (f # fs) h =
     (case parse (snd f) h of (v, h1) \<Rightarrow>
        (case parseFields fs h1 of (vs, h2) \<Rightarrow> ((fst f, v) # vs, h2)))"
termination stringify
proof (relation "measures
    [\<lambda>x. case x of
            Inl (h, stack, v) \<Rightarrow> length h - card {b \<in> set stack. b < length h}
          | Inr (Inl (h, stack, vs)) \<Rightarrow> length h - card {b \<in> set stack. b < length h}
          | Inr (Inr (h, stack, fs)) \<Rightarrow> length h - card {b \<in> set stack. b < length h},
     \<lambda>x. case x of
            Inl (h, stack, v) \<Rightarrow> 0
          | Inr (Inl (h, stack, vs)) \<Rightarrow> Suc (length vs)
          | Inr (Inr (h, stack, fs)) \<Rightarrow> Suc (length fs)]", goal_cases)
  case 1
  show ?case by simp
next
  case (2 h stack a x)
  then have a: "a \<notin> set stack" "a < length h" by simp_all
  have eq: "{b \<in> set (a # stack). b < length h} = insert a {b \<in> set stack. b < length h}"
    using a(2) by auto
  have "card {b \<in> set (a # stack). b < length h} = Suc (card {b \<in> set stack. b < length h})"
    unfolding eq using a(1) by simp
  moreover have "card {b \<in> set (a # stack). b < length h} \<le> card {..<length h}"
    by (rule card_mono) auto
  ultimately show ?case by simp
next
  case (3 h stack a x)
  then have a: "a \<notin> set stack" "a < length h" by simp_all
  have eq: "{b \<in> set (a # stack). b < length h} = insert a {b \<in> set stack. b < length h}"
    using a(2) by auto
  have "card {b \<in> set (a # stack). b < length h} = Suc (card {b \<in> set stack. b < length h})"
    unfolding eq using a(1) by simp
  moreover have "card {b \<in> set (a # stack). b < length h} \<le> card {..<length h}"
    by (rule card_mono) auto
  ultimately show ?case by simp
qed simp_all

text \<open>\<open>clone(value)\<close>: \<open>JSON.parse(JSON.stringify(value))\<close>.\<close>

definition clone :: "heap \<Rightarrow> val \<Rightarrow> error + val \<times> heap" where
  "clone h v =
     (case stringify h [] v of
        None \<Rightarrow> Inl TypeError
      | Some t \<Rightarrow> Inr (parse t h))"

text \<open>
  The store object: \<open>this.data\<close> is a reference to the object whose properties are the
  collections. Both functions return the value handed out and the heap after the call;
  neither assigns to a field of \<open>this\<close>.
\<close>

record dataStore =
  ds_filePath :: string
  ds_seed :: nat
  ds_data :: nat

definition getAll :: "heap \<Rightarrow> dataStore \<Rightarrow> error + val \<times> heap" where
  "getAll h this = clone h (VRef (ds_data this))"

text \<open>
  \<open>hasOwnProperty\<close> on \<open>this.data\<close>, which is a plain object in every store; were it
  not, no collection is known. \<open>list_collection\<close> is the method \<open>list\<close>.
\<close>

definition ownProperty :: "heap \<Rightarrow> nat \<Rightarrow> string \<Rightarrow> val option" where
  "ownProperty h a k =
     (if a < length h then (case h ! a of Obj fs \<Rightarrow> map_of fs k | Arr vs \<Rightarrow> None) else None)"

definition list_collection :: "heap \<Rightarrow> dataStore \<Rightarrow> string \<Rightarrow> error + val \<times> heap" where
  "list_collection h this collection =
     (case ownProperty h (ds_data this) collection of
        None \<Rightarrow> Inl (ValidationError (''Unknown collection: '' @ collection) 404)
      | Some v \<Rightarrow> clone h v)"

section \<open>The attainment contracts, as the specification words them\<close>





text \<open>
  Program-outcome attainment of the specification: a weighted mean, over the mappings of
  the outcome, of the mean course-outcome attainment of the student's enrolments in the
  outcome's course. A mapping whose course outcome does not resolve, whose course has no
  enrolment of the student, or whose enrolments all have no data, is left out of both
  sums.
\<close>

definition mean :: "real list \<Rightarrow> real" where
  "mean vs = sum_list vs / real (length vs)"






text \<open>
  The value of the accumulator \<open>totalWeightedMax\<close> when the loop over the mappings of
  the outcome ends: the number that the calculation tests against 0.
\<close>

definition totalWeightedMax :: "data \<Rightarrow> enrolment \<Rightarrow> string \<Rightarrow> real" where
  "totalWeightedMax d e c =
     fst (foldl (coStep d e) (0, 0)
            (filter (\<lambda>mapping. acm_courseOutcomeId mapping = c) (assessmentCoMappings d)))"

text \<open>
  A weight that takes the default: absent, \<open>NaN\<close>, zero or negative. The two
  functions below replace the weight of every mapping of one outcome.
\<close>

definition defaulted :: "jsnum option \<Rightarrow> bool" where
  "defaulted w = (case w of Some (Num r) \<Rightarrow> r \<le> 0 | _ \<Rightarrow> True)"

definition withCoWeights :: "(assessmentCoMapping \<Rightarrow> jsnum option) \<Rightarrow> string \<Rightarrow> data \<Rightarrow> data" where
  "withCoWeights f c d =
     d\<lparr>assessmentCoMappings :=
         map (\<lambda>m. if acm_courseOutcomeId m = c then m\<lparr>acm_weight := f m\<rparr> else m)
           (assessmentCoMappings d)\<rparr>"

definition withPoWeights :: "(coPoMapping \<Rightarrow> jsnum option) \<Rightarrow> string \<Rightarrow> data \<Rightarrow> data" where
  "withPoWeights f p d =
     d\<lparr>coPoMappings :=
         map (\<lambda>m. if cpm_programOutcomeId m = p then m\<lparr>cpm_weight := f m\<rparr> else m)
           (coPoMappings d)\<rparr>"

text \<open>
  The value of the semester report for one program outcome, in the specification's words:
  the mean of the per-student attainments, computed with the semester filter, over the
  students of the program whose result is a number; no data when there is none.
\<close>

definition semesterPoValue :: "data \<Rightarrow> string \<Rightarrow> string \<Rightarrow> programOutcome \<Rightarrow> real option" where
  "semesterPoValue d programId semesterId outcome =
     (let vs = List.map_filter
                 (\<lambda>student.
                    if st_programId student = programId
                    then calculateProgramOutcomeAchievementForStudent d (st_id student)
                           (po_id outcome) (Some semesterId)
                    else None) (students d)
      in if vs = [] then None else Some (mean vs))"

text \<open>
  Status classification: a computed percentage is \<open>Achieved\<close> exactly from 60 upwards. A
  report obeys the rule when every row that shows a number shows its classification.
\<close>

definition classify :: "real \<Rightarrow> string" where
  "classify v = (if 60 \<le> v then ''Achieved'' else ''Needs Attention'')"

definition rowClassified :: "row \<Rightarrow> bool" where
  "rowClassified r = (case row_value r of None \<Rightarrow> True | Some v \<Rightarrow> row_status r = classify v)"

definition statusRule :: "report \<Rightarrow> bool" where
  "statusRule rep = (case rep of EmptyState msg \<Rightarrow> True | Table rows \<Rightarrow> list_all rowClassified rows)"

text \<open>
  The snapshot without its dangling mappings: the assessment-to-CO mappings whose
  assessment does not resolve, and the CO-to-PO mappings whose course outcome does not.
\<close>

definition withoutDanglingCo :: "data \<Rightarrow> data" where
  "withoutDanglingCo d =
     d\<lparr>assessmentCoMappings :=
         filter (\<lambda>m. getAssessment d (acm_assessmentId m) \<noteq> None) (assessmentCoMappings d)\<rparr>"

definition withoutDanglingPo :: "data \<Rightarrow> data" where
  "withoutDanglingPo d =
     d\<lparr>coPoMappings :=
         filter (\<lambda>m. getCourseOutcome d (cpm_courseOutcomeId m) \<noteq> None) (coPoMappings d)\<rparr>"

text \<open>At most one mark per pair of enrolment and assessment.\<close>

definition markKey :: "mark \<Rightarrow> string \<times> string" where
  "markKey m = (mk_enrolmentId m, mk_assessmentId m)"

definition uniqueMarks :: "data \<Rightarrow> bool" where
  "uniqueMarks st = distinct (map markKey (marks st))"

text \<open>
  The objects of a value: the addresses reachable from it in a heap. A caller that mutates
  a value it was handed writes to one of these. \<open>writes\<close> performs a sequence of such
  assignments, each replacing the contents of one object.
\<close>

fun objVals :: "obj \<Rightarrow> val list" where
  "objVals (Arr vs) = vs"
| "objVals (Obj fs) = map snd fs"

inductive_set reach :: "heap \<Rightarrow> val \<Rightarrow> nat set" for h :: heap and v :: val where
  root: "v = VRef a \<Longrightarrow> a \<in> reach h v"
| step: "a \<in> reach h v \<Longrightarrow> a < length h \<Longrightarrow> VRef b \<in> set (objVals (h ! a)) \<Longrightarrow> b \<in> reach h v"

definition writes :: "(nat \<times> obj) list \<Rightarrow> heap \<Rightarrow> heap" where
  "writes ws h = foldl (\<lambda>h' w. h'[fst w := snd w]) h ws"

text \<open>The references of some values all lie in a range of addresses.\<close>

definition refsWithin :: "nat \<Rightarrow> nat \<Rightarrow> val list \<Rightarrow> bool" where
  "refsWithin lo hi vs = (\<forall>a. VRef a \<in> set vs \<longrightarrow> lo \<le> a \<and> a < hi)"

text \<open>
  What it means that a call returned a deep copy of the stored value \<open>v\<close>, whose tree is
  \<open>t\<close>: the call succeeded; the heap after it is the heap before it with objects
  appended, so no object that existed was changed; every object of the returned value is
  an appended one; the returned value has the same tree; and after any assignments to
  objects that are not among the ones that existed before the call, those are still
  there as they were and the stored value still has its tree.
\<close>

definition copyOf :: "heap \<Rightarrow> val \<Rightarrow> json_tree \<Rightarrow> error + val \<times> heap \<Rightarrow> bool" where
  "copyOf h v t res =
     (\<exists>r ext. res = Inr (r, h @ ext)
        \<and> reach (h @ ext) r \<subseteq> {length h ..< length h + length ext}
        \<and> stringify (h @ ext) [] r = Some t
        \<and> (\<forall>ws. list_all (\<lambda>w. length h \<le> fst w) ws \<longrightarrow>
               (\<exists>ext'. writes ws (h @ ext) = h @ ext')
               \<and> stringify (writes ws (h @ ext)) [] v = Some t))"

section \<open>Scenarios\<close>

text \<open>
  Outcome CO1 of course CRS1 draws on the assessments A1 and A2 (50 marks each, weight 50
  each); enrolment E1 has 40 marks on A1 and no mark on A2.
\<close>

definition scenarioEnrolment :: enrolment where
  "scenarioEnrolment =
     \<lparr>en_id = ''E1'', en_studentId = ''S1'', en_courseId = ''CRS1'', en_semesterId = ''SEM1'',
      en_year = ''2024''\<rparr>"

definition scenarioCo :: data where
  "scenarioCo =
     \<lparr>students = [], enrolments = [scenarioEnrolment], programOutcomes = [],
      courseOutcomes = [], coPoMappings = [],
      assessments =
        [\<lparr>as_id = ''A1'', as_courseId = ''CRS1'', as_name = ''Quiz'', as_maxMarks = 50,
          as_semesterId = ''SEM1''\<rparr>,
         \<lparr>as_id = ''A2'', as_courseId = ''CRS1'', as_name = ''Exam'', as_maxMarks = 50,
          as_semesterId = ''SEM1''\<rparr>],
      assessmentCoMappings =
        [\<lparr>acm_id = ''M1'', acm_assessmentId = ''A1'', acm_courseOutcomeId = ''CO1'',
          acm_weight = Some (Num 50)\<rparr>,
         \<lparr>acm_id = ''M2'', acm_assessmentId = ''A2'', acm_courseOutcomeId = ''CO1'',
          acm_weight = Some (Num 50)\<rparr>],
      marks =
        [\<lparr>mk_id = ''K1'', mk_enrolmentId = ''E1'', mk_assessmentId = ''A1'', mk_marks = 40\<rparr>]\<rparr>"


text \<open>
  Program outcome PO1 draws on CO1 (weight 100) and CO2 (weight 0); both outcomes belong
  to course CRS1. CO1 is assessed by A1 alone (50 marks, weight 0), on which enrolment E1
  of student S1 has 40 marks; CO2 has no assessment mapping.
\<close>

definition scenarioPo :: data where
  "scenarioPo =
     \<lparr>students =
        [\<lparr>st_id = ''S1'', st_studentId = ''2024-001'', st_name = ''Ada'', st_programId = ''PRG1''\<rparr>],
      enrolments = [scenarioEnrolment],
      programOutcomes =
        [\<lparr>po_id = ''PO1'', po_programId = ''PRG1'', po_code = ''PO1'', po_description = ''''\<rparr>],
      courseOutcomes =
        [\<lparr>co_id = ''CO1'', co_courseId = ''CRS1'', co_code = ''CO1'', co_description = ''''\<rparr>,
         \<lparr>co_id = ''CO2'', co_courseId = ''CRS1'', co_code = ''CO2'', co_description = ''''\<rparr>],
      coPoMappings =
        [\<lparr>cpm_id = ''P1'', cpm_courseOutcomeId = ''CO1'', cpm_programOutcomeId = ''PO1'',
          cpm_weight = Some (Num 100)\<rparr>,
         \<lparr>cpm_id = ''P2'', cpm_courseOutcomeId = ''CO2'', cpm_programOutcomeId = ''PO1'',
          cpm_weight = Some (Num 0)\<rparr>],
      assessments =
        [\<lparr>as_id = ''A1'', as_courseId = ''CRS1'', as_name = ''Quiz'', as_maxMarks = 50,
          as_semesterId = ''SEM1''\<rparr>],
      assessmentCoMappings =
        [\<lparr>acm_id = ''M1'', acm_assessmentId = ''A1'', acm_courseOutcomeId = ''CO1'',
          acm_weight = Some (Num 0)\<rparr>],
      marks =
        [\<lparr>mk_id = ''K1'', mk_enrolmentId = ''E1'', mk_assessmentId = ''A1'', mk_marks = 40\<rparr>]\<rparr>"

text \<open>The same snapshot after the record of PO1 is gone, its two mappings left behind.\<close>

definition scenarioDanglingPo :: data where
  "scenarioDanglingPo = scenarioPo\<lparr>programOutcomes := []\<rparr>"




text \<open>
  Two students of program PRG1 in semester SEM1: S1, with the given marks out of 50 on A1
  and so that percentage for CO1 and PO1, and S2, who has no enrolment.
\<close>

definition scenarioSemester :: "real \<Rightarrow> data" where
  "scenarioSemester v =
     scenarioPo\<lparr>students :=
       [\<lparr>st_id = ''S1'', st_studentId = ''2024-001'', st_name = ''Ada'', st_programId = ''PRG1''\<rparr>,
        \<lparr>st_id = ''S2'', st_studentId = ''2024-002'', st_name = ''Bo'', st_programId = ''PRG1''\<rparr>],
       marks :=
       [\<lparr>mk_id = ''K1'', mk_enrolmentId = ''E1'', mk_assessmentId = ''A1'', mk_marks = v\<rparr>]\<rparr>"

text \<open>
  The snapshot of PO1 with two mappings left behind by records that are gone: CO1 also
  mapped to an assessment A404, and PO1 also mapped to a course outcome CO404.
\<close>

definition danglingCoMapping :: assessmentCoMapping where
  "danglingCoMapping =
     \<lparr>acm_id = ''M404'', acm_assessmentId = ''A404'', acm_courseOutcomeId = ''CO1'',
      acm_weight = Some (Num 50)\<rparr>"

definition danglingPoMapping :: coPoMapping where
  "danglingPoMapping =
     \<lparr>cpm_id = ''P404'', cpm_courseOutcomeId = ''CO404'', cpm_programOutcomeId = ''PO1'',
      cpm_weight = Some (Num 50)\<rparr>"

definition scenarioDangling :: data where
  "scenarioDangling =
     scenarioPo\<lparr>assessmentCoMappings := danglingCoMapping # assessmentCoMappings scenarioPo,
                coPoMappings := danglingPoMapping # coPoMappings scenarioPo\<rparr>"

text \<open>
  Two requests against the store that holds the first scenario: a mark for the pair
  (E1, A2), which has none, and a new value for the pair (E1, A1), which has the mark K1.
\<close>

definition createPayload :: markPayload where
  "createPayload =
     \<lparr>p_enrolmentId = JString ''E1'', p_assessmentId = JString ''A2'', p_marks = Num 33\<rparr>"

definition updatePayload :: markPayload where
  "updatePayload =
     \<lparr>p_enrolmentId = JString ''E1'', p_assessmentId = JString ''A1'', p_marks = Num 45\<rparr>"

text \<open>
  A store with one mark: the record at address 0, the \<open>marks\<close> array at 1 and
  \<open>this.data\<close> at 2; the seed, with its empty array, at 3 and 4.
\<close>

definition scenarioHeap :: heap where
  "scenarioHeap =
     [Obj [(''id'', VStr ''K1''), (''enrolmentId'', VStr ''E1''), (''assessmentId'', VStr ''A1''),
           (''marks'', VNum 40)],
      Arr [VRef 0],
      Obj [(''marks'', VRef 1)],
      Arr [],
      Obj [(''marks'', VRef 3)]]"

definition scenarioStore :: dataStore where
  "scenarioStore = \<lparr>ds_filePath = ''data.json'', ds_seed = 4, ds_data = 2\<rparr>"

definition scenarioMarkTree :: json_tree where
  "scenarioMarkTree =
     TObj [(''id'', TStr ''K1''), (''enrolmentId'', TStr ''E1''), (''assessmentId'', TStr ''A1''),
           (''marks'', TNum 40)]"

section \<open>Verified properties\<close>

subsection \<open>The loop of the course-outcome calculation\<close>






subsection \<open>The loop of the program-outcome calculation\<close>

lemma foldl_plus: "foldl (\<lambda>sum value. sum + value) a vs = a + sum_list (vs :: real list)"
  by (induction vs arbitrary: a) simp_all

lemma average_mean: "average vs = mean vs"
  by (simp add: average_def mean_def foldl_plus)






lemmas scenarioPo_defs =
  scenarioPo_def scenarioDanglingPo_def scenarioEnrolment_def
  calculateProgramOutcomeAchievementForStudent_def calculateCourseOutcomeAchievement_def
  studentEnrolments_def noSemester_def poStep_def coStep_def average_def
  getProgramOutcome_def getCourseOutcome_def getAssessment_def findMark_def
  coWeight_def poWeight_def




subsection \<open>An enrolment without marks\<close>







subsection \<open>Weights that take the default\<close>

lemma coWeight_defaulted: "defaulted w \<Longrightarrow> coWeight w = 1"
  by (cases w rule: truthy.cases) (auto simp: defaulted_def coWeight_def)

lemma poWeight_defaulted: "defaulted w \<Longrightarrow> poWeight w = 100"
  by (cases w rule: truthy.cases) (auto simp: defaulted_def poWeight_def)

lemma coWeight_100: "coWeight (Some (Num 100)) = 1"
  by (simp add: coWeight_def)

lemma poWeight_100: "poWeight (Some (Num 100)) = 100"
  by (simp add: poWeight_def)

lemma getAssessment_withCoWeights: "getAssessment (withCoWeights f c d) = getAssessment d"
  by (intro ext) (simp add: getAssessment_def withCoWeights_def)

lemma findMark_withCoWeights: "findMark (withCoWeights f c d) = findMark d"
  by (intro ext) (simp add: findMark_def withCoWeights_def)

lemma coStep_withCoWeights: "coStep (withCoWeights f c d) e = coStep d e"
  by (intro ext) (simp add: coStep_def getAssessment_withCoWeights findMark_withCoWeights Let_def
      split: option.split)

lemma filter_map_weight:
  "filter (\<lambda>m. acm_courseOutcomeId m = c)
     (map (\<lambda>m. if acm_courseOutcomeId m = c then m\<lparr>acm_weight := f m\<rparr> else m) ms) =
   map (\<lambda>m. m\<lparr>acm_weight := f m\<rparr>) (filter (\<lambda>m. acm_courseOutcomeId m = c) ms)"
  by (induction ms) simp_all

text \<open>One step of the loop sees a mapping's weight only through \<open>coWeight\<close>.\<close>

lemma coStep_weight_cong:
  "coWeight w = coWeight w' \<Longrightarrow>
     coStep d e acc (m\<lparr>acm_weight := w\<rparr>) = coStep d e acc (m\<lparr>acm_weight := w'\<rparr>)"
  by (simp add: coStep_def Let_def split: option.split)

lemma foldl_coStep_weights:
  assumes "\<And>m. coWeight (f m) = coWeight (g m)"
  shows "foldl (coStep d e) acc (map (\<lambda>m. m\<lparr>acm_weight := f m\<rparr>) ms) =
         foldl (coStep d e) acc (map (\<lambda>m. m\<lparr>acm_weight := g m\<rparr>) ms)"
proof (induction ms arbitrary: acc)
  case Nil
  show ?case by simp
next
  case (Cons m ms)
  show ?case
    using Cons.IH coStep_weight_cong [OF assms, of d e acc m] by simp
qed

lemma calculateCo_withCoWeights:
  assumes "\<And>m. coWeight (f m) = coWeight (g m)"
  shows "calculateCourseOutcomeAchievement (withCoWeights f c d) e c =
         calculateCourseOutcomeAchievement (withCoWeights g c d) e c"
proof -
  have sel: "\<And>h. assessmentCoMappings (withCoWeights h c d) =
      map (\<lambda>m. if acm_courseOutcomeId m = c then m\<lparr>acm_weight := h m\<rparr> else m)
        (assessmentCoMappings d)"
    by (simp add: withCoWeights_def)
  show ?thesis
    by (simp add: calculateCourseOutcomeAchievement_def coStep_withCoWeights sel
        filter_map_weight foldl_coStep_weights [of f g, OF assms] Let_def)
qed

lemma getCourseOutcome_withPoWeights: "getCourseOutcome (withPoWeights f p d) = getCourseOutcome d"
  by (intro ext) (simp add: getCourseOutcome_def withPoWeights_def)

lemma getProgramOutcome_withPoWeights: "getProgramOutcome (withPoWeights f p d) = getProgramOutcome d"
  by (intro ext) (simp add: getProgramOutcome_def withPoWeights_def)

lemma studentEnrolments_withPoWeights: "studentEnrolments (withPoWeights f p d) = studentEnrolments d"
  by (intro ext) (simp add: studentEnrolments_def withPoWeights_def)

lemma getAssessment_withPoWeights: "getAssessment (withPoWeights f p d) = getAssessment d"
  by (intro ext) (simp add: getAssessment_def withPoWeights_def)

lemma findMark_withPoWeights: "findMark (withPoWeights f p d) = findMark d"
  by (intro ext) (simp add: findMark_def withPoWeights_def)

lemma coStep_withPoWeights: "coStep (withPoWeights f p d) = coStep d"
  by (intro ext) (simp add: coStep_def getAssessment_withPoWeights findMark_withPoWeights Let_def
      split: option.split)

lemma calculateCo_withPoWeights:
  "calculateCourseOutcomeAchievement (withPoWeights f p d) = calculateCourseOutcomeAchievement d"
proof -
  have "assessmentCoMappings (withPoWeights f p d) = assessmentCoMappings d"
    by (simp add: withPoWeights_def)
  then show ?thesis
    by (intro ext) (simp add: calculateCourseOutcomeAchievement_def coStep_withPoWeights Let_def)
qed

lemma poStep_withPoWeights: "poStep (withPoWeights f p d) = poStep d"
  by (intro ext)
    (simp add: poStep_def getCourseOutcome_withPoWeights calculateCo_withPoWeights Let_def
      split: option.split)

lemma filter_map_po_weight:
  "filter (\<lambda>m. cpm_programOutcomeId m = p)
     (map (\<lambda>m. if cpm_programOutcomeId m = p then m\<lparr>cpm_weight := f m\<rparr> else m) ms) =
   map (\<lambda>m. m\<lparr>cpm_weight := f m\<rparr>) (filter (\<lambda>m. cpm_programOutcomeId m = p) ms)"
  by (induction ms) simp_all

lemma poStep_weight_cong:
  "poWeight w = poWeight w' \<Longrightarrow>
     poStep d ens acc (m\<lparr>cpm_weight := w\<rparr>) = poStep d ens acc (m\<lparr>cpm_weight := w'\<rparr>)"
  by (simp add: poStep_def Let_def split: option.split)

lemma foldl_poStep_weights:
  assumes "\<And>m. poWeight (f m) = poWeight (g m)"
  shows "foldl (poStep d ens) acc (map (\<lambda>m. m\<lparr>cpm_weight := f m\<rparr>) ms) =
         foldl (poStep d ens) acc (map (\<lambda>m. m\<lparr>cpm_weight := g m\<rparr>) ms)"
proof (induction ms arbitrary: acc)
  case Nil
  show ?case by simp
next
  case (Cons m ms)
  show ?case
    using Cons.IH poStep_weight_cong [OF assms, of d ens acc m] by simp
qed

lemma calculatePo_withPoWeights:
  assumes "\<And>m. poWeight (f m) = poWeight (g m)"
  shows "calculateProgramOutcomeAchievementForStudent (withPoWeights f p d) s p semesterId =
         calculateProgramOutcomeAchievementForStudent (withPoWeights g p d) s p semesterId"
proof -
  have sel: "\<And>h. coPoMappings (withPoWeights h p d) =
      map (\<lambda>m. if cpm_programOutcomeId m = p then m\<lparr>cpm_weight := h m\<rparr> else m)
        (coPoMappings d)"
    by (simp add: withPoWeights_def)
  show ?thesis
    by (simp add: calculateProgramOutcomeAchievementForStudent_def poStep_withPoWeights sel
        filter_map_po_weight foldl_poStep_weights [of f g, OF assms]
        getProgramOutcome_withPoWeights studentEnrolments_withPoWeights Let_def
        split: option.split)
qed

text \<open>
  Claim C4. Replace the weight of every mapping of a course outcome by any weights that
  take the default (zero, negative, absent or \<open>NaN\<close>, possibly different from mapping
  to mapping): the course-outcome attainment of every enrolment is the same as when all
  of them are 100. The same holds for the weights of the mappings of a program outcome
  and the program-outcome attainment of every student. The default is the multiplier 1
  at the course-outcome level and the nominal weight 100 at the program-outcome level.
\<close>

theorem weight_defaulting_equivalence:
  assumes "\<And>m. defaulted (f m)" and "\<And>m. defaulted (g m)"
  shows "calculateCourseOutcomeAchievement (withCoWeights f c d) e c =
           calculateCourseOutcomeAchievement (withCoWeights (\<lambda>m. Some (Num 100)) c d) e c
         \<and> calculateProgramOutcomeAchievementForStudent (withPoWeights g p d) s p semesterId =
           calculateProgramOutcomeAchievementForStudent (withPoWeights (\<lambda>m. Some (Num 100)) p d)
             s p semesterId
         \<and> coWeight (f m) = 1 \<and> poWeight (g m') = 100"
proof (intro conjI)
  show "calculateCourseOutcomeAchievement (withCoWeights f c d) e c =
        calculateCourseOutcomeAchievement (withCoWeights (\<lambda>m. Some (Num 100)) c d) e c"
    by (rule calculateCo_withCoWeights) (simp add: coWeight_defaulted [OF assms(1)] coWeight_100)
  show "calculateProgramOutcomeAchievementForStudent (withPoWeights g p d) s p semesterId =
        calculateProgramOutcomeAchievementForStudent (withPoWeights (\<lambda>m. Some (Num 100)) p d)
          s p semesterId"
    by (rule calculatePo_withPoWeights) (simp add: poWeight_defaulted [OF assms(2)] poWeight_100)
  show "coWeight (f m) = 1" by (rule coWeight_defaulted [OF assms(1)])
  show "poWeight (g m') = 100" by (rule poWeight_defaulted [OF assms(2)])
qed

theorem weight_defaulting_equivalence_witness:
  "calculateCourseOutcomeAchievement (withCoWeights (\<lambda>m. Some (Num (- 5))) ''CO1'' scenarioPo)
       scenarioEnrolment ''CO1'' =
     calculateCourseOutcomeAchievement (withCoWeights (\<lambda>m. Some (Num 100)) ''CO1'' scenarioPo)
       scenarioEnrolment ''CO1''
   \<and> calculateProgramOutcomeAchievementForStudent (withPoWeights (\<lambda>m. None) ''PO1'' scenarioPo)
       ''S1'' ''PO1'' None =
     calculateProgramOutcomeAchievementForStudent
       (withPoWeights (\<lambda>m. Some (Num 100)) ''PO1'' scenarioPo) ''S1'' ''PO1'' None
   \<and> calculateCourseOutcomeAchievement (withCoWeights (\<lambda>m. Some (Num (- 5))) ''CO1'' scenarioPo)
       scenarioEnrolment ''CO1'' = Some 80"
proof -
  have h1: "\<And>m :: assessmentCoMapping. defaulted (Some (Num (- 5)))"
    by (simp add: defaulted_def)
  have h2: "\<And>m :: coPoMapping. defaulted None"
    by (simp add: defaulted_def)
  have v: "calculateCourseOutcomeAchievement
             (withCoWeights (\<lambda>m. Some (Num (- 5))) ''CO1'' scenarioPo) scenarioEnrolment ''CO1'' =
           Some 80"
    by (simp add: scenarioPo_defs withCoWeights_def)
  show ?thesis
    using weight_defaulting_equivalence
      [where f = "\<lambda>m. Some (Num (- 5))" and g = "\<lambda>m. None" and c = "''CO1''"
         and d = scenarioPo and e = scenarioEnrolment and p = "''PO1''" and s = "''S1''"
         and semesterId = None, OF h1 h2] v
    by simp
qed

subsection \<open>The latest enrolment\<close>





subsection \<open>The semester report of program outcomes\<close>

lemma dropNull_map_filter:
  "dropNull (map f (filter P xs)) = List.map_filter (\<lambda>x. if P x then f x else None) xs"
proof (induction xs)
  case Nil
  show ?case by (simp add: map_filter_simps)
next
  case (Cons x xs)
  then show ?case by (cases "f x") (simp_all add: map_filter_simps)
qed

lemma poSemesterRow_value:
  "poSemesterRow d (filter (\<lambda>student. st_programId student = programId) (students d)) semesterId outcome =
     \<lparr>row_code = po_code outcome, row_description = po_description outcome,
      row_value = semesterPoValue d programId semesterId outcome,
      row_status =
        (case semesterPoValue d programId semesterId outcome of
           None \<Rightarrow> ''No contributing data''
         | Some v \<Rightarrow> if 60 \<le> v then ''Achieved'' else ''Needs Attention'')\<rparr>"
  by (simp add: poSemesterRow_def semesterPoValue_def dropNull_map_filter average_mean Let_def)

lemma renderPoSemester_rows:
  assumes "programId \<noteq> []" and "semesterId \<noteq> []"
    and "list_ex (\<lambda>outcome. po_programId outcome = programId) (programOutcomes d)"
  shows "renderPoAchievementForSemester d programId semesterId =
     Table (map (\<lambda>outcome.
                \<lparr>row_code = po_code outcome, row_description = po_description outcome,
                 row_value = semesterPoValue d programId semesterId outcome,
                 row_status =
                   (case semesterPoValue d programId semesterId outcome of
                      None \<Rightarrow> ''No contributing data''
                    | Some v \<Rightarrow> if 60 \<le> v then ''Achieved'' else ''Needs Attention'')\<rparr>)
            (filter (\<lambda>outcome. po_programId outcome = programId) (programOutcomes d)))"
proof -
  have "filter (\<lambda>outcome. po_programId outcome = programId) (programOutcomes d) \<noteq> []"
    using assms(3) by (simp add: list_ex_iff filter_empty_conv)
  then show ?thesis
    using assms(1,2)
    by (simp add: renderPoAchievementForSemester_def Let_def poSemesterRow_value)
qed

lemmas scenarioSemester_defs =
  scenarioSemester_def scenarioPo_defs renderPoAchievementForSemester_def poSemesterRow_def

lemma scenarioSemester_report:
  "renderPoAchievementForSemester (scenarioSemester 35) ''PRG1'' ''SEM1'' =
     Table [\<lparr>row_code = ''PO1'', row_description = [], row_value = Some 70,
             row_status = ''Achieved''\<rparr>]"
  by (simp add: scenarioSemester_defs)

text \<open>
  Claim C6. For a selected program and semester and the program outcomes of that program,
  the semester report has one row per outcome, and the value of the row is the mean of the
  per-student attainments (with the semester filter) over the students of the program
  whose attainment is a number, and no data when no student has one. With two students,
  one without data and one at 70, the reported value is exactly 70.
\<close>

theorem renderPoAchievementForSemester_mean:
  assumes "programId \<noteq> []" and "semesterId \<noteq> []"
    and "list_ex (\<lambda>outcome. po_programId outcome = programId) (programOutcomes d)"
  shows "renderPoAchievementForSemester d programId semesterId =
     Table (map (\<lambda>outcome.
                \<lparr>row_code = po_code outcome, row_description = po_description outcome,
                 row_value = semesterPoValue d programId semesterId outcome,
                 row_status =
                   (case semesterPoValue d programId semesterId outcome of
                      None \<Rightarrow> ''No contributing data''
                    | Some v \<Rightarrow> if 60 \<le> v then ''Achieved'' else ''Needs Attention'')\<rparr>)
            (filter (\<lambda>outcome. po_programId outcome = programId) (programOutcomes d)))
     \<and> renderPoAchievementForSemester (scenarioSemester 35) ''PRG1'' ''SEM1'' =
         Table [\<lparr>row_code = ''PO1'', row_description = [], row_value = Some 70,
                 row_status = ''Achieved''\<rparr>]"
  using renderPoSemester_rows [OF assms] scenarioSemester_report by simp

theorem renderPoAchievementForSemester_mean_witness:
  "map (\<lambda>outcome.
          \<lparr>row_code = po_code outcome, row_description = po_description outcome,
           row_value = semesterPoValue (scenarioSemester 35) ''PRG1'' ''SEM1'' outcome,
           row_status =
             (case semesterPoValue (scenarioSemester 35) ''PRG1'' ''SEM1'' outcome of
                None \<Rightarrow> ''No contributing data''
              | Some v \<Rightarrow> if 60 \<le> v then ''Achieved'' else ''Needs Attention'')\<rparr>)
     (filter (\<lambda>outcome. po_programId outcome = ''PRG1'') (programOutcomes (scenarioSemester 35))) =
   [\<lparr>row_code = ''PO1'', row_description = [], row_value = Some 70, row_status = ''Achieved''\<rparr>]"
proof -
  have h1: "''PRG1'' \<noteq> []" and h2: "''SEM1'' \<noteq> []" by simp_all
  have h3: "list_ex (\<lambda>outcome. po_programId outcome = ''PRG1'') (programOutcomes (scenarioSemester 35))"
    by (simp add: scenarioSemester_def scenarioPo_def)
  note c = renderPoAchievementForSemester_mean [OF h1 h2 h3]
  have "Table (map (\<lambda>outcome.
          \<lparr>row_code = po_code outcome, row_description = po_description outcome,
           row_value = semesterPoValue (scenarioSemester 35) ''PRG1'' ''SEM1'' outcome,
           row_status =
             (case semesterPoValue (scenarioSemester 35) ''PRG1'' ''SEM1'' outcome of
                None \<Rightarrow> ''No contributing data''
              | Some v \<Rightarrow> if 60 \<le> v then ''Achieved'' else ''Needs Attention'')\<rparr>)
     (filter (\<lambda>outcome. po_programId outcome = ''PRG1'') (programOutcomes (scenarioSemester 35)))) =
   Table [\<lparr>row_code = ''PO1'', row_description = [], row_value = Some 70, row_status = ''Achieved''\<rparr>]"
    by (rule trans [OF sym [OF conjunct1 [OF c]] conjunct2 [OF c]])
  then show ?thesis by (rule report.inject(2) [THEN iffD1])
qed

subsection \<open>Status classification in the four views\<close>

lemma coStudentRow_classified: "rowClassified (coStudentRow d e outcome)"
  by (simp add: rowClassified_def coStudentRow_def classify_def split: option.split)

lemma coSemesterRow_classified: "rowClassified (coSemesterRow d ens outcome)"
  by (simp add: rowClassified_def coSemesterRow_def classify_def Let_def)

lemma poStudentRow_classified: "rowClassified (poStudentRow d s outcome)"
  by (simp add: rowClassified_def poStudentRow_def classify_def split: option.split)

lemma poSemesterRow_classified: "rowClassified (poSemesterRow d studs semesterId outcome)"
  by (simp add: rowClassified_def poSemesterRow_def classify_def Let_def)

lemma statusRule_coStudent: "statusRule (renderCoAchievementForStudent d s c)"
  by (simp add: statusRule_def renderCoAchievementForStudent_def Let_def list_all_iff
      coStudentRow_classified split: option.split)

lemma statusRule_coSemester: "statusRule (renderCoAchievementForSemester d c semesterId)"
  by (simp add: statusRule_def renderCoAchievementForSemester_def Let_def list_all_iff
      coSemesterRow_classified)

lemma statusRule_poStudent: "statusRule (renderPoAchievementForStudent d s)"
  by (simp add: statusRule_def renderPoAchievementForStudent_def Let_def list_all_iff
      poStudentRow_classified split: option.split)

lemma statusRule_poSemester: "statusRule (renderPoAchievementForSemester d p semesterId)"
  by (simp add: statusRule_def renderPoAchievementForSemester_def Let_def list_all_iff
      poSemesterRow_classified)

lemmas boundary_defs =
  scenarioSemester_def scenarioPo_defs getStudent_def findLatestEnrolment_def
  renderCoAchievementForStudent_def coStudentRow_def
  renderCoAchievementForSemester_def coSemesterRow_def
  renderPoAchievementForStudent_def poStudentRow_def
  renderPoAchievementForSemester_def poSemesterRow_def

lemma boundary_coStudent:
  "renderCoAchievementForStudent (scenarioSemester 30) ''S1'' ''CRS1'' =
     Table [\<lparr>row_code = ''CO1'', row_description = [], row_value = Some 60,
             row_status = ''Achieved''\<rparr>,
            \<lparr>row_code = ''CO2'', row_description = [], row_value = None,
             row_status = ''No assessment mapping''\<rparr>]"
  "renderCoAchievementForStudent (scenarioSemester (5999 / 200)) ''S1'' ''CRS1'' =
     Table [\<lparr>row_code = ''CO1'', row_description = [], row_value = Some (5999 / 100),
             row_status = ''Needs Attention''\<rparr>,
            \<lparr>row_code = ''CO2'', row_description = [], row_value = None,
             row_status = ''No assessment mapping''\<rparr>]"
  by (simp_all add: boundary_defs)

lemma boundary_coSemester:
  "renderCoAchievementForSemester (scenarioSemester 30) ''CRS1'' ''SEM1'' =
     Table [\<lparr>row_code = ''CO1'', row_description = [], row_value = Some 60,
             row_status = ''Achieved''\<rparr>,
            \<lparr>row_code = ''CO2'', row_description = [], row_value = None,
             row_status = ''No marks uploaded''\<rparr>]"
  "renderCoAchievementForSemester (scenarioSemester (5999 / 200)) ''CRS1'' ''SEM1'' =
     Table [\<lparr>row_code = ''CO1'', row_description = [], row_value = Some (5999 / 100),
             row_status = ''Needs Attention''\<rparr>,
            \<lparr>row_code = ''CO2'', row_description = [], row_value = None,
             row_status = ''No marks uploaded''\<rparr>]"
  by (simp_all add: boundary_defs)

lemma boundary_poStudent:
  "renderPoAchievementForStudent (scenarioSemester 30) ''S1'' =
     Table [\<lparr>row_code = ''PO1'', row_description = [], row_value = Some 60,
             row_status = ''Achieved''\<rparr>]"
  "renderPoAchievementForStudent (scenarioSemester (5999 / 200)) ''S1'' =
     Table [\<lparr>row_code = ''PO1'', row_description = [], row_value = Some (5999 / 100),
             row_status = ''Needs Attention''\<rparr>]"
  by (simp_all add: boundary_defs)

lemma boundary_poSemester:
  "renderPoAchievementForSemester (scenarioSemester 30) ''PRG1'' ''SEM1'' =
     Table [\<lparr>row_code = ''PO1'', row_description = [], row_value = Some 60,
             row_status = ''Achieved''\<rparr>]"
  "renderPoAchievementForSemester (scenarioSemester (5999 / 200)) ''PRG1'' ''SEM1'' =
     Table [\<lparr>row_code = ''PO1'', row_description = [], row_value = Some (5999 / 100),
             row_status = ''Needs Attention''\<rparr>]"
  by (simp_all add: boundary_defs)

text \<open>
  Claim C7. In each of the four report views (per-student CO, per-semester CO, per-student
  PO, per-semester PO) every row that shows a number \<open>v\<close> has the status
  \<open>Achieved\<close> exactly when \<open>v \<ge> 60\<close> and \<open>Needs Attention\<close> otherwise. At the
  boundary, each view shows \<open>Achieved\<close> for 60.00 and \<open>Needs Attention\<close> for 59.99.
\<close>

theorem status_classification_four_views:
  "statusRule (renderCoAchievementForStudent d s c)
   \<and> statusRule (renderCoAchievementForSemester d c semesterId)
   \<and> statusRule (renderPoAchievementForStudent d s)
   \<and> statusRule (renderPoAchievementForSemester d p semesterId)
   \<and> classify 60 = ''Achieved'' \<and> classify (5999 / 100) = ''Needs Attention''
   \<and> renderCoAchievementForStudent (scenarioSemester 30) ''S1'' ''CRS1'' =
       Table [\<lparr>row_code = ''CO1'', row_description = [], row_value = Some 60,
               row_status = ''Achieved''\<rparr>,
              \<lparr>row_code = ''CO2'', row_description = [], row_value = None,
               row_status = ''No assessment mapping''\<rparr>]
   \<and> renderCoAchievementForStudent (scenarioSemester (5999 / 200)) ''S1'' ''CRS1'' =
       Table [\<lparr>row_code = ''CO1'', row_description = [], row_value = Some (5999 / 100),
               row_status = ''Needs Attention''\<rparr>,
              \<lparr>row_code = ''CO2'', row_description = [], row_value = None,
               row_status = ''No assessment mapping''\<rparr>]
   \<and> renderCoAchievementForSemester (scenarioSemester 30) ''CRS1'' ''SEM1'' =
       Table [\<lparr>row_code = ''CO1'', row_description = [], row_value = Some 60,
               row_status = ''Achieved''\<rparr>,
              \<lparr>row_code = ''CO2'', row_description = [], row_value = None,
               row_status = ''No marks uploaded''\<rparr>]
   \<and> renderCoAchievementForSemester (scenarioSemester (5999 / 200)) ''CRS1'' ''SEM1'' =
       Table [\<lparr>row_code = ''CO1'', row_description = [], row_value = Some (5999 / 100),
               row_status = ''Needs Attention''\<rparr>,
              \<lparr>row_code = ''CO2'', row_description = [], row_value = None,
               row_status = ''No marks uploaded''\<rparr>]
   \<and> renderPoAchievementForStudent (scenarioSemester 30) ''S1'' =
       Table [\<lparr>row_code = ''PO1'', row_description = [], row_value = Some 60,
               row_status = ''Achieved''\<rparr>]
   \<and> renderPoAchievementForStudent (scenarioSemester (5999 / 200)) ''S1'' =
       Table [\<lparr>row_code = ''PO1'', row_description = [], row_value = Some (5999 / 100),
               row_status = ''Needs Attention''\<rparr>]
   \<and> renderPoAchievementForSemester (scenarioSemester 30) ''PRG1'' ''SEM1'' =
       Table [\<lparr>row_code = ''PO1'', row_description = [], row_value = Some 60,
               row_status = ''Achieved''\<rparr>]
   \<and> renderPoAchievementForSemester (scenarioSemester (5999 / 200)) ''PRG1'' ''SEM1'' =
       Table [\<lparr>row_code = ''PO1'', row_description = [], row_value = Some (5999 / 100),
               row_status = ''Needs Attention''\<rparr>]"
  by (intro conjI statusRule_coStudent statusRule_coSemester statusRule_poStudent
      statusRule_poSemester boundary_coStudent boundary_coSemester boundary_poStudent
      boundary_poSemester) (simp_all add: classify_def)

subsection \<open>Dangling references\<close>

lemma coStep_dangling: "getAssessment d (acm_assessmentId m) = None \<Longrightarrow> coStep d e acc m = acc"
  by (simp add: coStep_def)

lemma poStep_dangling: "getCourseOutcome d (cpm_courseOutcomeId m) = None \<Longrightarrow> poStep d ens acc m = acc"
  by (simp add: poStep_def)

lemma foldl_coStep_resolving:
  "foldl (coStep d e) acc (filter (\<lambda>m. getAssessment d (acm_assessmentId m) \<noteq> None) ms) =
   foldl (coStep d e) acc ms"
  by (induction ms arbitrary: acc) (auto simp: coStep_dangling)

lemma foldl_poStep_resolving:
  "foldl (poStep d ens) acc (filter (\<lambda>m. getCourseOutcome d (cpm_courseOutcomeId m) \<noteq> None) ms) =
   foldl (poStep d ens) acc ms"
  by (induction ms arbitrary: acc) (auto simp: poStep_dangling)

lemma getAssessment_withoutDanglingCo: "getAssessment (withoutDanglingCo d) = getAssessment d"
  by (intro ext) (simp add: getAssessment_def withoutDanglingCo_def)

lemma findMark_withoutDanglingCo: "findMark (withoutDanglingCo d) = findMark d"
  by (intro ext) (simp add: findMark_def withoutDanglingCo_def)

lemma coStep_withoutDanglingCo: "coStep (withoutDanglingCo d) = coStep d"
  by (intro ext)
    (simp add: coStep_def getAssessment_withoutDanglingCo findMark_withoutDanglingCo Let_def
      split: option.split)

lemma calculateCo_withoutDanglingCo:
  "calculateCourseOutcomeAchievement (withoutDanglingCo d) e c =
   calculateCourseOutcomeAchievement d e c"
proof -
  let ?R = "\<lambda>m. getAssessment d (acm_assessmentId m) \<noteq> None"
  let ?P = "\<lambda>m. acm_courseOutcomeId m = c"
  let ?ms = "assessmentCoMappings d"
  have sel: "assessmentCoMappings (withoutDanglingCo d) = filter ?R ?ms"
    by (simp add: withoutDanglingCo_def)
  have comm: "filter ?P (filter ?R ?ms) = filter ?R (filter ?P ?ms)"
    by (simp add: conj_commute)
  have fold: "foldl (coStep d e) (0, 0) (filter ?P (filter ?R ?ms)) =
              foldl (coStep d e) (0, 0) (filter ?P ?ms)"
    unfolding comm by (rule foldl_coStep_resolving)
  show ?thesis
  proof (cases "filter ?P (filter ?R ?ms) = []")
    case True
    with fold have "foldl (coStep d e) (0, 0) (filter ?P ?ms) = (0, 0)" by simp
    with True show ?thesis
      by (simp add: calculateCourseOutcomeAchievement_def sel coStep_withoutDanglingCo Let_def)
  next
    case False
    then have "filter ?P ?ms \<noteq> []" by (auto simp: filter_empty_conv)
    with False fold show ?thesis
      by (simp add: calculateCourseOutcomeAchievement_def sel coStep_withoutDanglingCo Let_def)
  qed
qed

lemma getCourseOutcome_withoutDanglingPo: "getCourseOutcome (withoutDanglingPo d) = getCourseOutcome d"
  by (intro ext) (simp add: getCourseOutcome_def withoutDanglingPo_def)

lemma getProgramOutcome_withoutDanglingPo: "getProgramOutcome (withoutDanglingPo d) = getProgramOutcome d"
  by (intro ext) (simp add: getProgramOutcome_def withoutDanglingPo_def)

lemma studentEnrolments_withoutDanglingPo: "studentEnrolments (withoutDanglingPo d) = studentEnrolments d"
  by (intro ext) (simp add: studentEnrolments_def withoutDanglingPo_def)

lemma calculateCo_withoutDanglingPo:
  "calculateCourseOutcomeAchievement (withoutDanglingPo d) = calculateCourseOutcomeAchievement d"
proof -
  have "getAssessment (withoutDanglingPo d) = getAssessment d"
    by (intro ext) (simp add: getAssessment_def withoutDanglingPo_def)
  moreover have "findMark (withoutDanglingPo d) = findMark d"
    by (intro ext) (simp add: findMark_def withoutDanglingPo_def)
  ultimately have "coStep (withoutDanglingPo d) = coStep d"
    by (intro ext) (simp add: coStep_def Let_def split: option.split)
  moreover have "assessmentCoMappings (withoutDanglingPo d) = assessmentCoMappings d"
    by (simp add: withoutDanglingPo_def)
  ultimately show ?thesis
    by (intro ext) (simp add: calculateCourseOutcomeAchievement_def Let_def)
qed

lemma poStep_withoutDanglingPo: "poStep (withoutDanglingPo d) = poStep d"
  by (intro ext)
    (simp add: poStep_def getCourseOutcome_withoutDanglingPo calculateCo_withoutDanglingPo Let_def
      split: option.split)

lemma calculatePo_withoutDanglingPo:
  "calculateProgramOutcomeAchievementForStudent (withoutDanglingPo d) s p semesterId =
   calculateProgramOutcomeAchievementForStudent d s p semesterId"
proof -
  let ?R = "\<lambda>m. getCourseOutcome d (cpm_courseOutcomeId m) \<noteq> None"
  let ?P = "\<lambda>m. cpm_programOutcomeId m = p"
  let ?ms = "coPoMappings d"
  let ?ens = "studentEnrolments d s semesterId"
  have sel: "coPoMappings (withoutDanglingPo d) = filter ?R ?ms"
    by (simp add: withoutDanglingPo_def)
  have comm: "filter ?P (filter ?R ?ms) = filter ?R (filter ?P ?ms)"
    by (simp add: conj_commute)
  have fold: "foldl (poStep d ?ens) (0, 0) (filter ?P (filter ?R ?ms)) =
              foldl (poStep d ?ens) (0, 0) (filter ?P ?ms)"
    unfolding comm by (rule foldl_poStep_resolving)
  show ?thesis
  proof (cases "filter ?P (filter ?R ?ms) = []")
    case True
    with fold have "foldl (poStep d ?ens) (0, 0) (filter ?P ?ms) = (0, 0)" by simp
    with True show ?thesis
      by (simp add: calculateProgramOutcomeAchievementForStudent_def sel
          poStep_withoutDanglingPo getProgramOutcome_withoutDanglingPo
          studentEnrolments_withoutDanglingPo Let_def split: option.split)
  next
    case False
    then have "filter ?P ?ms \<noteq> []" by (auto simp: filter_empty_conv)
    with False fold show ?thesis
      by (simp add: calculateProgramOutcomeAchievementForStudent_def sel
          poStep_withoutDanglingPo getProgramOutcome_withoutDanglingPo
          studentEnrolments_withoutDanglingPo Let_def split: option.split)
  qed
qed

text \<open>
  Claim C8. The two calculations are total functions into a number or the no-data value:
  every lookup that may miss is tested before its result is read, so no snapshot of the
  collections makes them fail. A dangling reference contributes nothing: a step of the
  course-outcome loop on a mapping whose assessment does not resolve leaves both sums
  unchanged, a step of the program-outcome loop on a mapping whose course outcome does
  not resolve leaves total weight and weighted sum unchanged, and each calculation returns
  the same result on the snapshot with all dangling mappings removed.
\<close>

theorem dangling_references_contribute_nothing:
  "(getAssessment d (acm_assessmentId m) = None \<longrightarrow> coStep d e acc m = acc)
   \<and> (getCourseOutcome d (cpm_courseOutcomeId pm) = None \<longrightarrow> poStep d ens acc pm = acc)
   \<and> calculateCourseOutcomeAchievement (withoutDanglingCo d) e c =
       calculateCourseOutcomeAchievement d e c
   \<and> calculateProgramOutcomeAchievementForStudent (withoutDanglingPo d) s p semesterId =
       calculateProgramOutcomeAchievementForStudent d s p semesterId"
  by (simp add: coStep_dangling poStep_dangling calculateCo_withoutDanglingCo
      calculatePo_withoutDanglingPo)

theorem dangling_references_contribute_nothing_witness:
  "coStep scenarioDangling scenarioEnrolment (3, 4) danglingCoMapping = (3, 4)
   \<and> poStep scenarioDangling [scenarioEnrolment] (3, 4) danglingPoMapping = (3, 4)
   \<and> calculateCourseOutcomeAchievement scenarioDangling scenarioEnrolment ''CO1'' = Some 80
   \<and> calculateCourseOutcomeAchievement (withoutDanglingCo scenarioDangling) scenarioEnrolment ''CO1'' =
       Some 80
   \<and> calculateProgramOutcomeAchievementForStudent scenarioDangling ''S1'' ''PO1'' None = Some 80
   \<and> calculateProgramOutcomeAchievementForStudent (withoutDanglingPo scenarioDangling) ''S1'' ''PO1''
       None = Some 80"
proof -
  have h1: "getAssessment scenarioDangling (acm_assessmentId danglingCoMapping) = None"
    by (simp add: getAssessment_def scenarioDangling_def scenarioPo_def danglingCoMapping_def)
  have h2: "getCourseOutcome scenarioDangling (cpm_courseOutcomeId danglingPoMapping) = None"
    by (simp add: getCourseOutcome_def scenarioDangling_def scenarioPo_def danglingPoMapping_def)
  have v1: "calculateCourseOutcomeAchievement scenarioDangling scenarioEnrolment ''CO1'' = Some 80"
    by (simp add: scenarioDangling_def danglingCoMapping_def danglingPoMapping_def scenarioPo_defs)
  have v2: "calculateProgramOutcomeAchievementForStudent scenarioDangling ''S1'' ''PO1'' None = Some 80"
    by (simp add: scenarioDangling_def danglingCoMapping_def danglingPoMapping_def scenarioPo_defs)
  note t = dangling_references_contribute_nothing
    [where d = scenarioDangling and m = danglingCoMapping and pm = danglingPoMapping
       and e = scenarioEnrolment and acc = "(3, 4)" and ens = "[scenarioEnrolment]"
       and c = "''CO1''" and s = "''S1''" and p = "''PO1''" and semesterId = None]
  show ?thesis
    using t h1 h2 v1 v2 by simp
qed

subsection \<open>Upsert of a mark\<close>

lemma updateFirst_length: "length (updateFirst P f xs) = length xs"
  by (induction xs) simp_all

lemma updateFirst_map_key:
  "(\<And>x. key (f x) = key x) \<Longrightarrow> map key (updateFirst P f xs) = map key xs"
  by (induction xs) simp_all

lemma updateFirst_find:
  "find P xs = Some x \<Longrightarrow>
     \<exists>i < length xs. xs ! i = x \<and> P x \<and> (\<forall>j < i. \<not> P (xs ! j)) \<and>
        updateFirst P f xs = xs[i := f x]"
proof (induction xs)
  case Nil
  then show ?case by simp
next
  case (Cons y ys)
  show ?case
  proof (cases "P y")
    case True
    with Cons.prems have "y = x" by simp
    with True show ?thesis by (intro exI [of _ 0]) simp
  next
    case False
    with Cons.prems have "find P ys = Some x" by simp
    from Cons.IH [OF this] obtain i where i: "i < length ys" "ys ! i = x" "P x"
      "\<forall>j < i. \<not> P (ys ! j)" "updateFirst P f ys = ys[i := f x]"
      by blast
    have "\<forall>j < Suc i. \<not> P ((y # ys) ! j)"
      using i(4) False by (auto simp: nth_Cons split: nat.split)
    with i False show ?thesis by (intro exI [of _ "Suc i"]) simp
  qed
qed

lemma findEnrolmentById_string: "findEnrolmentById st i \<noteq> None \<Longrightarrow> JString (str_of i) = i"
  by (auto simp: findEnrolmentById_def find_None_iff strictEq_def)

lemma findAssessmentById_string: "findAssessmentById st i \<noteq> None \<Longrightarrow> JString (str_of i) = i"
  by (auto simp: findAssessmentById_def find_None_iff strictEq_def)

text \<open>The three outcomes of a call, one lemma each.\<close>

lemma upsertMark_rejected:
  assumes "\<not> js_truthy (p_enrolmentId payload) \<or> \<not> js_truthy (p_assessmentId payload)
           \<or> p_marks payload = NaN
           \<or> findEnrolmentById st (p_enrolmentId payload) = None
           \<or> findAssessmentById st (p_assessmentId payload) = None"
  shows "fst (upsertMark newId saved st payload) = st"
    and "\<exists>err. snd (upsertMark newId saved st payload) = Inl err"
  using assms by (auto simp: upsertMark_def Let_def)

lemma upsertMark_accepted_value:
  assumes "p_marks payload \<noteq> NaN"
  shows "Num (case p_marks payload of Num r \<Rightarrow> r | NaN \<Rightarrow> 0) = p_marks payload"
  using assms by (cases "p_marks payload") simp_all

lemma upsertMark_update:
  assumes ok: "js_truthy (p_enrolmentId payload)" "js_truthy (p_assessmentId payload)"
      "p_marks payload \<noteq> NaN"
      "findEnrolmentById st (p_enrolmentId payload) \<noteq> None"
      "findAssessmentById st (p_assessmentId payload) \<noteq> None"
    and found: "find (\<lambda>mark. strictEq (mk_enrolmentId mark) (p_enrolmentId payload) \<and>
                            strictEq (mk_assessmentId mark) (p_assessmentId payload)) (marks st)
                = Some found"
  shows "\<exists>i < length (marks st).
           marks st ! i = found
           \<and> upsertMark newId saved st payload =
               (st\<lparr>marks := (marks st)[i := found\<lparr>mk_marks := (case p_marks payload of Num r \<Rightarrow> r | NaN \<Rightarrow> 0)\<rparr>]\<rparr>,
                if saved
                then Inr (found\<lparr>mk_marks := (case p_marks payload of Num r \<Rightarrow> r | NaN \<Rightarrow> 0)\<rparr>, False)
                else Inl SaveFailed)"
proof -
  let ?same = "\<lambda>mark. strictEq (mk_enrolmentId mark) (p_enrolmentId payload) \<and>
                      strictEq (mk_assessmentId mark) (p_assessmentId payload)"
  let ?v = "case p_marks payload of Num r \<Rightarrow> r | NaN \<Rightarrow> 0"
  from updateFirst_find [OF found, of "\<lambda>m. m\<lparr>mk_marks := ?v\<rparr>"]
  obtain i where i: "i < length (marks st)" "marks st ! i = found"
    "updateFirst ?same (\<lambda>m. m\<lparr>mk_marks := ?v\<rparr>) (marks st) = (marks st)[i := found\<lparr>mk_marks := ?v\<rparr>]"
    by blast
  have "upsertMark newId saved st payload =
          (st\<lparr>marks := (marks st)[i := found\<lparr>mk_marks := ?v\<rparr>]\<rparr>,
           if saved then Inr (found\<lparr>mk_marks := ?v\<rparr>, False) else Inl SaveFailed)"
    using ok found i(3) by (simp add: upsertMark_def Let_def)
  with i(1,2) show ?thesis by blast
qed

lemma upsertMark_create:
  assumes ok: "js_truthy (p_enrolmentId payload)" "js_truthy (p_assessmentId payload)"
      "p_marks payload \<noteq> NaN"
      "findEnrolmentById st (p_enrolmentId payload) \<noteq> None"
      "findAssessmentById st (p_assessmentId payload) \<noteq> None"
    and none: "find (\<lambda>mark. strictEq (mk_enrolmentId mark) (p_enrolmentId payload) \<and>
                           strictEq (mk_assessmentId mark) (p_assessmentId payload)) (marks st)
               = None"
  shows "upsertMark newId saved st payload =
           (st\<lparr>marks := marks st @
               [\<lparr>mk_id = newId, mk_enrolmentId = str_of (p_enrolmentId payload),
                 mk_assessmentId = str_of (p_assessmentId payload),
                 mk_marks = (case p_marks payload of Num r \<Rightarrow> r | NaN \<Rightarrow> 0)\<rparr>]\<rparr>,
            if saved
            then Inr (\<lparr>mk_id = newId, mk_enrolmentId = str_of (p_enrolmentId payload),
                       mk_assessmentId = str_of (p_assessmentId payload),
                       mk_marks = (case p_marks payload of Num r \<Rightarrow> r | NaN \<Rightarrow> 0)\<rparr>, True)
            else Inl SaveFailed)"
    and "(str_of (p_enrolmentId payload), str_of (p_assessmentId payload))
           \<notin> set (map markKey (marks st))"
proof -
  show "upsertMark newId saved st payload =
           (st\<lparr>marks := marks st @
               [\<lparr>mk_id = newId, mk_enrolmentId = str_of (p_enrolmentId payload),
                 mk_assessmentId = str_of (p_assessmentId payload),
                 mk_marks = (case p_marks payload of Num r \<Rightarrow> r | NaN \<Rightarrow> 0)\<rparr>]\<rparr>,
            if saved
            then Inr (\<lparr>mk_id = newId, mk_enrolmentId = str_of (p_enrolmentId payload),
                       mk_assessmentId = str_of (p_assessmentId payload),
                       mk_marks = (case p_marks payload of Num r \<Rightarrow> r | NaN \<Rightarrow> 0)\<rparr>, True)
            else Inl SaveFailed)"
    using ok none by (simp add: upsertMark_def Let_def)
  have e: "JString (str_of (p_enrolmentId payload)) = p_enrolmentId payload"
    by (rule findEnrolmentById_string [OF ok(4)])
  have a: "JString (str_of (p_assessmentId payload)) = p_assessmentId payload"
    by (rule findAssessmentById_string [OF ok(5)])
  show "(str_of (p_enrolmentId payload), str_of (p_assessmentId payload))
           \<notin> set (map markKey (marks st))"
  proof
    assume "(str_of (p_enrolmentId payload), str_of (p_assessmentId payload))
              \<in> set (map markKey (marks st))"
    then obtain m where m: "m \<in> set (marks st)"
      "mk_enrolmentId m = str_of (p_enrolmentId payload)"
      "mk_assessmentId m = str_of (p_assessmentId payload)"
      by (auto simp: markKey_def)
    then have "strictEq (mk_enrolmentId m) (p_enrolmentId payload) \<and>
               strictEq (mk_assessmentId m) (p_assessmentId payload)"
      using e a by (simp add: strictEq_def)
    with none m(1) show False by (auto simp: find_None_iff)
  qed
qed

lemma uniqueMarks_update:
  assumes "uniqueMarks st" and "i < length (marks st)"
  shows "uniqueMarks (st\<lparr>marks := (marks st)[i := (marks st ! i)\<lparr>mk_marks := v\<rparr>]\<rparr>)"
proof -
  have "map markKey ((marks st)[i := (marks st ! i)\<lparr>mk_marks := v\<rparr>]) =
        (map markKey (marks st))[i := markKey (marks st ! i)]"
    by (simp add: map_update markKey_def)
  also have "\<dots> = map markKey (marks st)"
    using assms(2) by (simp add: list_update_same_conv)
  finally show ?thesis using assms(1) by (simp add: uniqueMarks_def)
qed

text \<open>
  Claim C9. The marks collection holds at most one entry per pair of enrolment and
  assessment: the seed has none, and every call of \<open>upsertMark\<close> keeps the property,
  whatever its outcome. A successful call returns the entry of the payload's pair with
  the payload's value and leaves the other collections alone; when it reports
  \<open>created\<close> the pair had no entry and exactly this entry was appended; otherwise
  the entry of the pair was replaced in place by the returned one, and the collection
  kept its length.
\<close>

theorem upsertMark_keeps_marks_unique:
  assumes "uniqueMarks st"
  shows "uniqueMarks (fst (upsertMark newId saved st payload))
    \<and> (\<forall>entry created. snd (upsertMark newId saved st payload) = Inr (entry, created) \<longrightarrow>
          (fst (upsertMark newId saved st payload))\<lparr>marks := marks st\<rparr> = st
          \<and> JString (mk_enrolmentId entry) = p_enrolmentId payload
          \<and> JString (mk_assessmentId entry) = p_assessmentId payload
          \<and> Num (mk_marks entry) = p_marks payload
          \<and> (if created
              then markKey entry \<notin> set (map markKey (marks st))
                   \<and> marks (fst (upsertMark newId saved st payload)) = marks st @ [entry]
              else length (marks (fst (upsertMark newId saved st payload))) = length (marks st)
                   \<and> (\<exists>i < length (marks st).
                         markKey (marks st ! i) = markKey entry
                         \<and> marks (fst (upsertMark newId saved st payload)) = (marks st)[i := entry])))
    \<and> uniqueMarks initialData"
proof -
  let ?r = "upsertMark newId saved st payload"
  let ?same = "\<lambda>mark. strictEq (mk_enrolmentId mark) (p_enrolmentId payload) \<and>
                      strictEq (mk_assessmentId mark) (p_assessmentId payload)"
  let ?v = "case p_marks payload of Num r \<Rightarrow> r | NaN \<Rightarrow> 0"
  let ?goal = "uniqueMarks (fst ?r)
    \<and> (\<forall>entry created. snd ?r = Inr (entry, created) \<longrightarrow>
          (fst ?r)\<lparr>marks := marks st\<rparr> = st
          \<and> JString (mk_enrolmentId entry) = p_enrolmentId payload
          \<and> JString (mk_assessmentId entry) = p_assessmentId payload
          \<and> Num (mk_marks entry) = p_marks payload
          \<and> (if created
              then markKey entry \<notin> set (map markKey (marks st))
                   \<and> marks (fst ?r) = marks st @ [entry]
              else length (marks (fst ?r)) = length (marks st)
                   \<and> (\<exists>i < length (marks st).
                         markKey (marks st ! i) = markKey entry
                         \<and> marks (fst ?r) = (marks st)[i := entry])))"
  have seed: "uniqueMarks initialData"
    by (simp add: uniqueMarks_def initialData_def)
  consider
    (rejected) "\<not> js_truthy (p_enrolmentId payload) \<or> \<not> js_truthy (p_assessmentId payload)
           \<or> p_marks payload = NaN
           \<or> findEnrolmentById st (p_enrolmentId payload) = None
           \<or> findAssessmentById st (p_assessmentId payload) = None"
    | (update) found where "js_truthy (p_enrolmentId payload)" "js_truthy (p_assessmentId payload)"
        "p_marks payload \<noteq> NaN" "findEnrolmentById st (p_enrolmentId payload) \<noteq> None"
        "findAssessmentById st (p_assessmentId payload) \<noteq> None"
        "find ?same (marks st) = Some found"
    | (create) "js_truthy (p_enrolmentId payload)" "js_truthy (p_assessmentId payload)"
        "p_marks payload \<noteq> NaN" "findEnrolmentById st (p_enrolmentId payload) \<noteq> None"
        "findAssessmentById st (p_assessmentId payload) \<noteq> None"
        "find ?same (marks st) = None"
    by (cases "find ?same (marks st)") blast+
  then have g: ?goal
  proof cases
    case rejected
    from upsertMark_rejected [OF rejected, of newId saved]
    show ?thesis using assms by auto
  next
    case update
    from upsertMark_update [OF update, of newId saved] obtain i where
      i: "i < length (marks st)" "marks st ! i = found"
      and r: "?r = (st\<lparr>marks := (marks st)[i := found\<lparr>mk_marks := ?v\<rparr>]\<rparr>,
                   if saved then Inr (found\<lparr>mk_marks := ?v\<rparr>, False) else Inl SaveFailed)"
      by blast
    have same: "?same found"
      using update(6) by (auto simp: find_Some_iff)
    have u: "uniqueMarks (fst ?r)"
      using uniqueMarks_update [OF assms i(1), of ?v] i(2) r by simp
    have key: "markKey (marks st ! i) = markKey (found\<lparr>mk_marks := ?v\<rparr>)"
      using i(2) by (simp add: markKey_def)
    have val: "Num ?v = p_marks payload"
      by (rule upsertMark_accepted_value [OF update(3)])
    have ids: "JString (mk_enrolmentId found) = p_enrolmentId payload"
      "JString (mk_assessmentId found) = p_assessmentId payload"
      using same by (simp_all add: strictEq_def)
    show ?thesis
      unfolding r using u [unfolded r] i(1) key val ids by (cases saved) auto
  next
    case create
    note r = upsertMark_create(1) [OF create, of newId saved]
    note fresh = upsertMark_create(2) [OF create]
    have u: "uniqueMarks (fst ?r)"
      unfolding r using assms fresh by (simp add: uniqueMarks_def markKey_def)
    have val: "Num ?v = p_marks payload"
      by (rule upsertMark_accepted_value [OF create(3)])
    have ids: "JString (str_of (p_enrolmentId payload)) = p_enrolmentId payload"
      "JString (str_of (p_assessmentId payload)) = p_assessmentId payload"
      by (rule findEnrolmentById_string [OF create(4)], rule findAssessmentById_string [OF create(5)])
    show ?thesis
      unfolding r using u [unfolded r] fresh val ids by (cases saved) (auto simp: markKey_def)
  qed
  show ?thesis
    by (rule conjI [OF conjunct1 [OF g] conjI [OF conjunct2 [OF g] seed]])
qed

theorem upsertMark_keeps_marks_unique_witness:
  "uniqueMarks scenarioCo
   \<and> uniqueMarks (fst (upsertMark ''K2'' True scenarioCo createPayload))
   \<and> uniqueMarks (fst (upsertMark ''K2'' True scenarioCo updatePayload))
   \<and> upsertMark ''K2'' True scenarioCo createPayload =
       (scenarioCo\<lparr>marks :=
          [\<lparr>mk_id = ''K1'', mk_enrolmentId = ''E1'', mk_assessmentId = ''A1'', mk_marks = 40\<rparr>,
           \<lparr>mk_id = ''K2'', mk_enrolmentId = ''E1'', mk_assessmentId = ''A2'', mk_marks = 33\<rparr>]\<rparr>,
        Inr (\<lparr>mk_id = ''K2'', mk_enrolmentId = ''E1'', mk_assessmentId = ''A2'', mk_marks = 33\<rparr>, True))
   \<and> upsertMark ''K2'' True scenarioCo updatePayload =
       (scenarioCo\<lparr>marks :=
          [\<lparr>mk_id = ''K1'', mk_enrolmentId = ''E1'', mk_assessmentId = ''A1'', mk_marks = 45\<rparr>]\<rparr>,
        Inr (\<lparr>mk_id = ''K1'', mk_enrolmentId = ''E1'', mk_assessmentId = ''A1'', mk_marks = 45\<rparr>, False))"
proof -
  have h: "uniqueMarks scenarioCo"
    by (simp add: uniqueMarks_def scenarioCo_def markKey_def)
  have c: "upsertMark ''K2'' True scenarioCo createPayload =
       (scenarioCo\<lparr>marks :=
          [\<lparr>mk_id = ''K1'', mk_enrolmentId = ''E1'', mk_assessmentId = ''A1'', mk_marks = 40\<rparr>,
           \<lparr>mk_id = ''K2'', mk_enrolmentId = ''E1'', mk_assessmentId = ''A2'', mk_marks = 33\<rparr>]\<rparr>,
        Inr (\<lparr>mk_id = ''K2'', mk_enrolmentId = ''E1'', mk_assessmentId = ''A2'', mk_marks = 33\<rparr>, True))"
    by (simp add: upsertMark_def createPayload_def scenarioCo_def scenarioEnrolment_def
        findEnrolmentById_def findAssessmentById_def strictEq_def Let_def)
  have u: "upsertMark ''K2'' True scenarioCo updatePayload =
       (scenarioCo\<lparr>marks :=
          [\<lparr>mk_id = ''K1'', mk_enrolmentId = ''E1'', mk_assessmentId = ''A1'', mk_marks = 45\<rparr>]\<rparr>,
        Inr (\<lparr>mk_id = ''K1'', mk_enrolmentId = ''E1'', mk_assessmentId = ''A1'', mk_marks = 45\<rparr>, False))"
    by (simp add: upsertMark_def updatePayload_def scenarioCo_def scenarioEnrolment_def
        findEnrolmentById_def findAssessmentById_def strictEq_def Let_def)
  from upsertMark_keeps_marks_unique [OF h, of "''K2''" True createPayload]
  have 1: "uniqueMarks (fst (upsertMark ''K2'' True scenarioCo createPayload))"
    by (rule conjunct1)
  from upsertMark_keeps_marks_unique [OF h, of "''K2''" True updatePayload]
  have 2: "uniqueMarks (fst (upsertMark ''K2'' True scenarioCo updatePayload))"
    by (rule conjunct1)
  from h 1 2 c u show ?thesis by (intro conjI)
qed

subsection \<open>Copies handed out by the store\<close>

text \<open>Parsing only appends objects to the heap.\<close>

lemma parse_extends:
  "parse t h = (v, h') \<Longrightarrow> \<exists>ext. h' = h @ ext"
  "parseList ts h = (vs, h') \<Longrightarrow> \<exists>ext. h' = h @ ext"
  "parseFields fs h = (fvs, h') \<Longrightarrow> \<exists>ext. h' = h @ ext"
proof (induction t h and ts h and fs h arbitrary: v h' and vs h' and fvs h'
    rule: parse_parseList_parseFields.induct)
  case (5 ts h)
  obtain vs1 h1 where p: "parseList ts h = (vs1, h1)" by (cases "parseList ts h")
  from "5.IH" [OF p] "5.prems" p show ?case by auto
next
  case (6 fs h)
  obtain vs1 h1 where p: "parseFields fs h = (vs1, h1)" by (cases "parseFields fs h")
  from "6.IH" [OF p] "6.prems" p show ?case by auto
next
  case (8 t ts h)
  obtain v1 h1 where p1: "parse t h = (v1, h1)" by (cases "parse t h")
  obtain vs2 h2 where p2: "parseList ts h1 = (vs2, h2)" by (cases "parseList ts h1")
  from "8.IH"(1) [OF p1] obtain e1 where e1: "h1 = h @ e1" by blast
  from "8.IH"(2) [OF p1 [symmetric] p2] obtain e2 where e2: "h2 = h1 @ e2" by blast
  from "8.prems" p1 p2 have "h' = h2" by simp
  with e1 e2 show ?case by simp
next
  case (10 f fs h)
  obtain v1 h1 where p1: "parse (snd f) h = (v1, h1)" by (cases "parse (snd f) h")
  obtain vs2 h2 where p2: "parseFields fs h1 = (vs2, h2)" by (cases "parseFields fs h1")
  from "10.IH"(1) [OF p1] obtain e1 where e1: "h1 = h @ e1" by blast
  from "10.IH"(2) [OF p1 [symmetric] p2] obtain e2 where e2: "h2 = h1 @ e2" by blast
  from "10.prems" p1 p2 have "h' = h2" by simp
  with e1 e2 show ?case by simp
qed auto

text \<open>A successful \<open>stringify\<close> reads only objects that exist, so it is blind to appended ones.\<close>

lemma stringify_extend:
  "stringify h stack v = Some t \<Longrightarrow> stringify (h @ ext) stack v = Some t"
  "stringifyList h stack vs = Some ts \<Longrightarrow> stringifyList (h @ ext) stack vs = Some ts"
  "stringifyFields h stack fs = Some fts \<Longrightarrow> stringifyFields (h @ ext) stack fs = Some fts"
proof (induction h stack v and h stack vs and h stack fs arbitrary: t and ts and fts
    rule: stringify_stringifyList_stringifyFields.induct)
  case (5 h stack a)
  from "5.prems" have a: "a \<notin> set stack" "a < length h"
    by (auto split: if_splits)
  show ?case
  proof (cases "h ! a")
    case (Arr vs)
    with "5.prems" a obtain ts where ts: "stringifyList h (a # stack) vs = Some ts" "t = TArr ts"
      by auto
    from "5.IH"(1) [OF _ Arr ts(1)] a have "stringifyList (h @ ext) (a # stack) vs = Some ts"
      by simp
    with a Arr ts(2) show ?thesis by (simp add: nth_append)
  next
    case (Obj fs)
    with "5.prems" a obtain fts where fts: "stringifyFields h (a # stack) fs = Some fts" "t = TObj fts"
      by auto
    from "5.IH"(2) [OF _ Obj fts(1)] a have "stringifyFields (h @ ext) (a # stack) fs = Some fts"
      by simp
    with a Obj fts(2) show ?thesis by (simp add: nth_append)
  qed
next
  case (7 h stack v vs)
  from "7.prems" obtain t1 ts1 where t1: "stringify h stack v = Some t1"
    and ts1: "stringifyList h stack vs = Some ts1" and ts: "ts = t1 # ts1"
    by (auto split: option.splits)
  from "7.IH"(1) [OF t1] "7.IH"(2) [OF t1 ts1] ts show ?case by simp
next
  case (9 h stack f fs)
  from "9.prems" obtain t1 ts1 where t1: "stringify h stack (snd f) = Some t1"
    and ts1: "stringifyFields h stack fs = Some ts1" and ts: "fts = (fst f, t1) # ts1"
    by (auto split: option.splits)
  from "9.IH"(1) [OF t1] "9.IH"(2) [OF t1 ts1] ts show ?case by simp
qed auto

lemma refsWithin_mono:
  "refsWithin lo hi vs \<Longrightarrow> lo' \<le> lo \<Longrightarrow> hi \<le> hi' \<Longrightarrow> refsWithin lo' hi' vs"
  by (fastforce simp: refsWithin_def)

lemma refsWithin_Cons:
  "refsWithin lo hi (v # vs) \<longleftrightarrow> refsWithin lo hi [v] \<and> refsWithin lo hi vs"
  by (auto simp: refsWithin_def)

text \<open>
  The value that parsing returns and the objects that it appends refer only to appended
  objects.
\<close>

lemma parse_fresh:
  "parse t h = (v, h') \<Longrightarrow>
     refsWithin (length h) (length h') [v] \<and>
     (\<forall>a. length h \<le> a \<and> a < length h' \<longrightarrow>
          refsWithin (length h) (length h') (objVals (h' ! a)))"
  "parseList ts h = (vs, h') \<Longrightarrow>
     refsWithin (length h) (length h') vs \<and>
     (\<forall>a. length h \<le> a \<and> a < length h' \<longrightarrow>
          refsWithin (length h) (length h') (objVals (h' ! a)))"
  "parseFields fs h = (fvs, h') \<Longrightarrow>
     refsWithin (length h) (length h') (map snd fvs) \<and>
     (\<forall>a. length h \<le> a \<and> a < length h' \<longrightarrow>
          refsWithin (length h) (length h') (objVals (h' ! a)))"
proof (induction t h and ts h and fs h arbitrary: v h' and vs h' and fvs h'
    rule: parse_parseList_parseFields.induct)
  case (5 ts h)
  obtain vs1 h1 where p: "parseList ts h = (vs1, h1)" by (cases "parseList ts h")
  from parse_extends(2) [OF p] have len: "length h \<le> length h1" by auto
  from "5.prems" p have r: "v = VRef (length h1)" "h' = h1 @ [Arr vs1]" by simp_all
  note ih = "5.IH" [OF p]
  have "refsWithin (length h) (length h') [v]"
    using r len by (simp add: refsWithin_def)
  moreover have "refsWithin (length h) (length h') (objVals (h' ! a))"
    if a: "length h \<le> a \<and> a < length h'" for a
  proof (cases "a < length h1")
    case True
    with ih a have "refsWithin (length h) (length h1) (objVals (h1 ! a))" by simp
    then show ?thesis
      using True r by (auto simp: nth_append intro: refsWithin_mono)
  next
    case False
    with a r have "a = length h1" by simp
    with ih r show ?thesis by (auto intro: refsWithin_mono)
  qed
  ultimately show ?case by blast
next
  case (6 fs h)
  obtain vs1 h1 where p: "parseFields fs h = (vs1, h1)" by (cases "parseFields fs h")
  from parse_extends(3) [OF p] have len: "length h \<le> length h1" by auto
  from "6.prems" p have r: "v = VRef (length h1)" "h' = h1 @ [Obj vs1]" by simp_all
  note ih = "6.IH" [OF p]
  have "refsWithin (length h) (length h') [v]"
    using r len by (simp add: refsWithin_def)
  moreover have "refsWithin (length h) (length h') (objVals (h' ! a))"
    if a: "length h \<le> a \<and> a < length h'" for a
  proof (cases "a < length h1")
    case True
    with ih a have "refsWithin (length h) (length h1) (objVals (h1 ! a))" by simp
    then show ?thesis
      using True r by (auto simp: nth_append intro: refsWithin_mono)
  next
    case False
    with a r have "a = length h1" by simp
    with ih r show ?thesis by (auto intro: refsWithin_mono)
  qed
  ultimately show ?case by blast
next
  case (8 t ts h)
  obtain v1 h1 where p1: "parse t h = (v1, h1)" by (cases "parse t h")
  obtain vs2 h2 where p2: "parseList ts h1 = (vs2, h2)" by (cases "parseList ts h1")
  from parse_extends(1) [OF p1] have len1: "length h \<le> length h1" by auto
  from parse_extends(2) [OF p2] obtain e2 where e2: "h2 = h1 @ e2" by blast
  from "8.prems" p1 p2 have r: "vs = v1 # vs2" "h' = h2" by simp_all
  note ih1 = "8.IH"(1) [OF p1]
  note ih2 = "8.IH"(2) [OF p1 [symmetric] p2]
  have "refsWithin (length h) (length h') vs"
    unfolding r refsWithin_Cons [of _ _ v1 vs2]
    using ih1 ih2 len1 e2 by (auto intro: refsWithin_mono)
  moreover have "refsWithin (length h) (length h') (objVals (h' ! a))"
    if a: "length h \<le> a \<and> a < length h'" for a
  proof (cases "a < length h1")
    case True
    with ih1 a have "refsWithin (length h) (length h1) (objVals (h1 ! a))" by simp
    then show ?thesis
      using True r e2 by (auto simp: nth_append intro: refsWithin_mono)
  next
    case False
    with ih2 a r have "refsWithin (length h1) (length h2) (objVals (h2 ! a))" by simp
    then show ?thesis
      using r len1 by (auto intro: refsWithin_mono)
  qed
  ultimately show ?case by blast
next
  case (10 f fs h)
  obtain v1 h1 where p1: "parse (snd f) h = (v1, h1)" by (cases "parse (snd f) h")
  obtain vs2 h2 where p2: "parseFields fs h1 = (vs2, h2)" by (cases "parseFields fs h1")
  from parse_extends(1) [OF p1] have len1: "length h \<le> length h1" by auto
  from parse_extends(3) [OF p2] obtain e2 where e2: "h2 = h1 @ e2" by blast
  from "10.prems" p1 p2 have r: "fvs = (fst f, v1) # vs2" "h' = h2" by simp_all
  note ih1 = "10.IH"(1) [OF p1]
  note ih2 = "10.IH"(2) [OF p1 [symmetric] p2]
  have "refsWithin (length h) (length h') (map snd fvs)"
    unfolding r list.map snd_conv refsWithin_Cons [of _ _ v1 "map snd vs2"]
    using ih1 ih2 len1 e2 by (auto intro: refsWithin_mono)
  moreover have "refsWithin (length h) (length h') (objVals (h' ! a))"
    if a: "length h \<le> a \<and> a < length h'" for a
  proof (cases "a < length h1")
    case True
    with ih1 a have "refsWithin (length h) (length h1) (objVals (h1 ! a))" by simp
    then show ?thesis
      using True r e2 by (auto simp: nth_append intro: refsWithin_mono)
  next
    case False
    with ih2 a r have "refsWithin (length h1) (length h2) (objVals (h2 ! a))" by simp
    then show ?thesis
      using r len1 by (auto intro: refsWithin_mono)
  qed
  ultimately show ?case by blast
qed (simp_all add: refsWithin_def)

lemma reach_fresh:
  assumes v: "refsWithin lo (length h) [v]"
    and closed: "\<forall>a. lo \<le> a \<and> a < length h \<longrightarrow> refsWithin lo (length h) (objVals (h ! a))"
  shows "reach h v \<subseteq> {lo..<length h}"
proof
  fix a
  assume "a \<in> reach h v"
  then show "a \<in> {lo..<length h}"
  proof (induction rule: reach.induct)
    case (root a)
    with v show ?case by (simp add: refsWithin_def)
  next
    case (step a b)
    then have "lo \<le> a \<and> a < length h" by simp
    with closed have "refsWithin lo (length h) (objVals (h ! a))" by blast
    with step(3) show ?case by (auto simp: refsWithin_def)
  qed
qed

text \<open>
  Round trip: the parsed value stringifies to the tree it was parsed from, in the heap
  after parsing and in every heap that extends it.
\<close>

lemma stringify_parse:
  "parse t h = (v, h') \<Longrightarrow> (\<And>s. s \<in> set stack \<Longrightarrow> length h' \<le> s) \<Longrightarrow>
     stringify (h' @ ext) stack v = Some t"
  "parseList ts h = (vs, h') \<Longrightarrow> (\<And>s. s \<in> set stack \<Longrightarrow> length h' \<le> s) \<Longrightarrow>
     stringifyList (h' @ ext) stack vs = Some ts"
  "parseFields fs h = (fvs, h') \<Longrightarrow> (\<And>s. s \<in> set stack \<Longrightarrow> length h' \<le> s) \<Longrightarrow>
     stringifyFields (h' @ ext) stack fvs = Some fs"
proof (induction t h and ts h and fs h arbitrary: v h' stack ext and vs h' stack ext
    and fvs h' stack ext rule: parse_parseList_parseFields.induct)
  case (5 ts h)
  obtain vs1 h1 where p: "parseList ts h = (vs1, h1)" by (cases "parseList ts h")
  from "5.prems"(1) p have r: "v = VRef (length h1)" "h' = h1 @ [Arr vs1]" by simp_all
  have notin: "length h1 \<notin> set stack"
    using "5.prems"(2) r by fastforce
  have "stringifyList (h1 @ ([Arr vs1] @ ext)) (length h1 # stack) vs1 = Some ts"
  proof (rule "5.IH" [OF p])
    fix s assume "s \<in> set (length h1 # stack)"
    then show "length h1 \<le> s" using "5.prems"(2) r by fastforce
  qed
  with notin r show ?case by (simp add: nth_append)
next
  case (6 fs h)
  obtain vs1 h1 where p: "parseFields fs h = (vs1, h1)" by (cases "parseFields fs h")
  from "6.prems"(1) p have r: "v = VRef (length h1)" "h' = h1 @ [Obj vs1]" by simp_all
  have notin: "length h1 \<notin> set stack"
    using "6.prems"(2) r by fastforce
  have "stringifyFields (h1 @ ([Obj vs1] @ ext)) (length h1 # stack) vs1 = Some fs"
  proof (rule "6.IH" [OF p])
    fix s assume "s \<in> set (length h1 # stack)"
    then show "length h1 \<le> s" using "6.prems"(2) r by fastforce
  qed
  with notin r show ?case by (simp add: nth_append)
next
  case (8 t ts h)
  obtain v1 h1 where p1: "parse t h = (v1, h1)" by (cases "parse t h")
  obtain vs2 h2 where p2: "parseList ts h1 = (vs2, h2)" by (cases "parseList ts h1")
  from parse_extends(2) [OF p2] obtain e2 where e2: "h2 = h1 @ e2" by blast
  from "8.prems"(1) p1 p2 have r: "vs = v1 # vs2" "h' = h2" by simp_all
  have "stringify (h1 @ (e2 @ ext)) stack v1 = Some t"
  proof (rule "8.IH"(1) [OF p1])
    fix s assume "s \<in> set stack"
    then show "length h1 \<le> s" using "8.prems"(2) [of s] r e2 by simp
  qed
  moreover have "stringifyList (h2 @ ext) stack vs2 = Some ts"
  proof (rule "8.IH"(2) [OF p1 [symmetric] p2])
    fix s assume "s \<in> set stack"
    then show "length h2 \<le> s" using "8.prems"(2) [of s] r by simp
  qed
  ultimately show ?case using r e2 by simp
next
  case (10 f fs h)
  obtain v1 h1 where p1: "parse (snd f) h = (v1, h1)" by (cases "parse (snd f) h")
  obtain vs2 h2 where p2: "parseFields fs h1 = (vs2, h2)" by (cases "parseFields fs h1")
  from parse_extends(3) [OF p2] obtain e2 where e2: "h2 = h1 @ e2" by blast
  from "10.prems"(1) p1 p2 have r: "fvs = (fst f, v1) # vs2" "h' = h2" by simp_all
  have "stringify (h1 @ (e2 @ ext)) stack v1 = Some (snd f)"
  proof (rule "10.IH"(1) [OF p1])
    fix s assume "s \<in> set stack"
    then show "length h1 \<le> s" using "10.prems"(2) [of s] r e2 by simp
  qed
  moreover have "stringifyFields (h2 @ ext) stack vs2 = Some fs"
  proof (rule "10.IH"(2) [OF p1 [symmetric] p2])
    fix s assume "s \<in> set stack"
    then show "length h2 \<le> s" using "10.prems"(2) [of s] r by simp
  qed
  ultimately show ?case using r e2 by simp
qed auto

text \<open>Assignments to objects beyond a prefix of the heap leave the prefix as it is.\<close>

lemma writes_beyond:
  "(\<And>w. w \<in> set ws \<Longrightarrow> length h \<le> fst w) \<Longrightarrow> \<exists>ext'. writes ws (h @ ext) = h @ ext'"
proof (induction ws arbitrary: ext)
  case Nil
  show ?case by (simp add: writes_def)
next
  case (Cons w ws)
  have "length h \<le> fst w" using Cons.prems by simp
  then have "(h @ ext)[fst w := snd w] = h @ ext[fst w - length h := snd w]"
    by (simp add: list_update_append)
  moreover from Cons.IH [of "ext[fst w - length h := snd w]"] Cons.prems
  obtain ext' where "writes ws (h @ ext[fst w - length h := snd w]) = h @ ext'"
    by auto
  ultimately show ?case by (auto simp: writes_def)
qed

lemma clone_copyOf:
  assumes "stringify h [] v = Some t"
  shows "copyOf h v t (clone h v)"
proof -
  obtain r h' where p: "parse t h = (r, h')" by (cases "parse t h")
  from parse_extends(1) [OF p] obtain ext where ext: "h' = h @ ext" by blast
  have c: "clone h v = Inr (r, h @ ext)"
    using assms p ext by (simp add: clone_def)
  from parse_fresh(1) [OF p]
  have "reach h' r \<subseteq> {length h..<length h'}"
    by (intro reach_fresh) simp_all
  then have fresh: "reach (h @ ext) r \<subseteq> {length h ..< length h + length ext}"
    using ext by simp
  have "stringify (h' @ []) [] r = Some t"
    by (rule stringify_parse(1) [OF p]) simp
  then have same: "stringify (h @ ext) [] r = Some t"
    using ext by simp
  have frame: "(\<exists>ext'. writes ws (h @ ext) = h @ ext')
               \<and> stringify (writes ws (h @ ext)) [] v = Some t"
    if ws: "list_all (\<lambda>w. length h \<le> fst w) ws" for ws
  proof -
    from ws have "\<And>w. w \<in> set ws \<Longrightarrow> length h \<le> fst w"
      by (simp add: list_all_iff)
    from writes_beyond [OF this, of ws ext] obtain ext' where
      w: "writes ws (h @ ext) = h @ ext'" by blast
    then show ?thesis
      using stringify_extend(1) [OF assms, of ext'] by auto
  qed
  show ?thesis
    unfolding copyOf_def using c fresh same frame by blast
qed

lemma clone_cyclic: "stringify h [] v = None \<Longrightarrow> clone h v = Inl TypeError"
  by (simp add: clone_def)

text \<open>
  Claim C10. \<open>getAll\<close> and \<open>list\<close> return deep copies. Where the stored value can be
  stringified, the call returns a value with the same tree, all of whose objects are new;
  no object that existed before the call is changed by it, and none is changed, nor is
  the tree of the stored value, by later assignments to the new objects. A cyclic stored
  value makes the call throw the \<open>TypeError\<close> of \<open>JSON.stringify\<close>, and \<open>list\<close>
  of a name that is no collection throws its validation error; in both cases nothing is
  changed.
\<close>

theorem getAll_list_return_copies:
  "(stringify h [] (VRef (ds_data this)) = Some t \<longrightarrow>
      copyOf h (VRef (ds_data this)) t (getAll h this))
   \<and> (stringify h [] (VRef (ds_data this)) = None \<longrightarrow> getAll h this = Inl TypeError)
   \<and> (ownProperty h (ds_data this) collection = Some x \<and> stringify h [] x = Some t' \<longrightarrow>
        copyOf h x t' (list_collection h this collection))
   \<and> (ownProperty h (ds_data this) collection = Some x \<and> stringify h [] x = None \<longrightarrow>
        list_collection h this collection = Inl TypeError)
   \<and> (ownProperty h (ds_data this) collection = None \<longrightarrow>
        list_collection h this collection =
          Inl (ValidationError (''Unknown collection: '' @ collection) 404))"
proof (intro conjI impI)
  assume "stringify h [] (VRef (ds_data this)) = Some t"
  then show "copyOf h (VRef (ds_data this)) t (getAll h this)"
    unfolding getAll_def by (rule clone_copyOf)
next
  assume "stringify h [] (VRef (ds_data this)) = None"
  then show "getAll h this = Inl TypeError"
    unfolding getAll_def by (rule clone_cyclic)
next
  assume a: "ownProperty h (ds_data this) collection = Some x \<and> stringify h [] x = Some t'"
  then have "copyOf h x t' (clone h x)" by (intro clone_copyOf) simp
  with a show "copyOf h x t' (list_collection h this collection)"
    by (simp add: list_collection_def)
next
  assume a: "ownProperty h (ds_data this) collection = Some x \<and> stringify h [] x = None"
  then have "clone h x = Inl TypeError" by (intro clone_cyclic) simp
  with a show "list_collection h this collection = Inl TypeError"
    by (simp add: list_collection_def)
next
  assume "ownProperty h (ds_data this) collection = None"
  then show "list_collection h this collection =
      Inl (ValidationError (''Unknown collection: '' @ collection) 404)"
    by (simp add: list_collection_def)
qed

theorem getAll_list_return_copies_witness:
  "copyOf scenarioHeap (VRef (ds_data scenarioStore)) (TObj [(''marks'', TArr [scenarioMarkTree])])
     (getAll scenarioHeap scenarioStore)
   \<and> copyOf scenarioHeap (VRef 1) (TArr [scenarioMarkTree])
       (list_collection scenarioHeap scenarioStore ''marks'')
   \<and> list_collection scenarioHeap scenarioStore ''grades'' =
       Inl (ValidationError ''Unknown collection: grades'' 404)
   \<and> getAll scenarioHeap scenarioStore =
       Inr (VRef 7,
            scenarioHeap @
              [Obj [(''id'', VStr ''K1''), (''enrolmentId'', VStr ''E1''),
                    (''assessmentId'', VStr ''A1''), (''marks'', VNum 40)],
               Arr [VRef 5],
               Obj [(''marks'', VRef 6)]])"
proof -
  have s1: "stringify scenarioHeap [] (VRef 1) = Some (TArr [scenarioMarkTree])"
    by (simp add: scenarioHeap_def scenarioMarkTree_def)
  have s2: "stringify scenarioHeap [] (VRef (ds_data scenarioStore)) =
              Some (TObj [(''marks'', TArr [scenarioMarkTree])])"
    by (simp add: scenarioHeap_def scenarioStore_def scenarioMarkTree_def)
  have o1: "ownProperty scenarioHeap (ds_data scenarioStore) ''marks'' = Some (VRef 1)"
    by (simp add: ownProperty_def scenarioHeap_def scenarioStore_def)
  have o2: "ownProperty scenarioHeap (ds_data scenarioStore) ''grades'' = None"
    by (simp add: ownProperty_def scenarioHeap_def scenarioStore_def)
  note t = getAll_list_return_copies
    [where h = scenarioHeap and this = scenarioStore and collection = "''marks''"
       and t = "TObj [(''marks'', TArr [scenarioMarkTree])]" and x = "VRef 1"
       and t' = "TArr [scenarioMarkTree]"]
  note u = getAll_list_return_copies
    [where h = scenarioHeap and this = scenarioStore and collection = "''grades''"]
  have g: "getAll scenarioHeap scenarioStore =
       Inr (VRef 7,
            scenarioHeap @
              [Obj [(''id'', VStr ''K1''), (''enrolmentId'', VStr ''E1''),
                    (''assessmentId'', VStr ''A1''), (''marks'', VNum 40)],
               Arr [VRef 5],
               Obj [(''marks'', VRef 6)]])"
  proof -
    have "getAll scenarioHeap scenarioStore =
            Inr (parse (TObj [(''marks'', TArr [scenarioMarkTree])]) scenarioHeap)"
      by (simp only: getAll_def clone_def s2 option.case)
    then show ?thesis
      by (simp add: scenarioHeap_def scenarioMarkTree_def)
  qed
  from t s2 have 1: "copyOf scenarioHeap (VRef (ds_data scenarioStore))
      (TObj [(''marks'', TArr [scenarioMarkTree])]) (getAll scenarioHeap scenarioStore)"
    by blast
  from t o1 s1 have 2: "copyOf scenarioHeap (VRef 1) (TArr [scenarioMarkTree])
      (list_collection scenarioHeap scenarioStore ''marks'')"
    by blast
  from u o2 have 3: "list_collection scenarioHeap scenarioStore ''grades'' =
      Inl (ValidationError ''Unknown collection: grades'' 404)"
    by simp
  from 1 2 3 g show ?thesis by (intro conjI)
qed

end
